theory Spec2Isabelle
  imports Complex_Main "HOL-Library.Sublist"
begin

section \<open>Python values, exceptions and numbers\<close>

text \<open>
  The program is the single script \<^verbatim>\<open>fin_ai.py\<close>. Its functions take and return
  Python values, call a market-data provider, a plotting library and the file system, and
  raise exceptions. The embedding makes each of these explicit:
  \<^item> a Python value is a \<open>pyval\<close>; a \<open>bool\<close> is an \<open>int\<close> for \<open>isinstance\<close> and for
    arithmetic, as in Python;
  \<^item> a raised exception is a value \<open>Exn cls msg\<close>, where \<open>cls\<close> is its class and \<open>msg\<close> is
    what \<open>str(e)\<close> gives, and a function that may raise returns \<open>exn + 'a\<close> with \<open>Inl\<close>
    for the exception;
  \<^item> a \<open>float\<close> is a binary64 number: a finite one is carried by its exact value,
    beside the two infinities, the negative zero and NaN.
\<close>

datatype exn_class =
    ValueError | TypeError | KeyError | IndexError | OverflowError | ZeroDivisionError
  | FileNotFoundError | AttributeError | OtherError string
  | SystemExit | KeyboardInterrupt | GeneratorExit

datatype exn = Exn exn_class string

fun exn_str :: "exn \<Rightarrow> string" where
  "exn_str (Exn c msg) = msg"

fun exn_class_of :: "exn \<Rightarrow> exn_class" where
  "exn_class_of (Exn c msg) = c"

text \<open>
  \<open>isinstance(e, Exception)\<close>, which a clause \<open>except Exception\<close> tests. The classes
  \<open>SystemExit\<close>, \<open>KeyboardInterrupt\<close> and \<open>GeneratorExit\<close> derive from \<open>BaseException\<close>
  and not from \<open>Exception\<close>; \<open>OtherError name\<close> stands for any other class that derives
  from \<open>Exception\<close>.
\<close>

fun is_exception :: "exn \<Rightarrow> bool" where
  "is_exception (Exn SystemExit msg) = False"
| "is_exception (Exn KeyboardInterrupt msg) = False"
| "is_exception (Exn GeneratorExit msg) = False"
| "is_exception (Exn c msg) = True"

datatype pyfloat = Finite real | NegZero | PosInf | NegInf | NaN

datatype pyval = PyInt int | PyBool bool | PyFloat pyfloat | PyStr string | PyNone

text \<open>The numbers among the values: what \<open>isinstance(num, (int, float))\<close> accepts.\<close>

datatype pynum = NInt int | NFloat pyfloat

fun as_number :: "pyval \<Rightarrow> pynum option" where
  "as_number (PyInt n) = Some (NInt n)"
| "as_number (PyBool b) = Some (NInt (if b then 1 else 0))"
| "as_number (PyFloat x) = Some (NFloat x)"
| "as_number (PyStr s) = None"
| "as_number PyNone = None"

definition isinstance_int_float :: "pyval \<Rightarrow> bool" where
  "isinstance_int_float v = (as_number v \<noteq> None)"

definition quoted :: "string \<Rightarrow> string" where
  "quoted s = CHR 0x27 # s @ [CHR 0x27]"

text \<open>The rupee sign U+20B9, as its three UTF-8 bytes.\<close>

definition rupee :: string where
  "rupee = [CHR 0xE2, CHR 0x82, CHR 0xB9]"

subsection \<open>Comparison of a number with an int literal\<close>

text \<open>
  Python compares an \<open>int\<close> or a \<open>float\<close> with an \<open>int\<close> exactly, by value; every
  comparison with NaN is false.
\<close>

fun float_ge :: "pyfloat \<Rightarrow> int \<Rightarrow> bool" where
  "float_ge (Finite q) k = (of_int k \<le> q)"
| "float_ge NegZero k = (k \<le> 0)"
| "float_ge PosInf k = True"
| "float_ge NegInf k = False"
| "float_ge NaN k = False"

fun float_lt :: "pyfloat \<Rightarrow> int \<Rightarrow> bool" where
  "float_lt (Finite q) k = (q < of_int k)"
| "float_lt NegZero k = (0 < k)"
| "float_lt PosInf k = False"
| "float_lt NegInf k = True"
| "float_lt NaN k = False"

fun num_ge :: "pynum \<Rightarrow> int \<Rightarrow> bool" where
  "num_ge (NInt n) k = (k \<le> n)"
| "num_ge (NFloat x) k = float_ge x k"

fun num_lt :: "pynum \<Rightarrow> int \<Rightarrow> bool" where
  "num_lt (NInt n) k = (n < k)"
| "num_lt (NFloat x) k = float_lt x k"

subsection \<open>Rounding to binary64\<close>

text \<open>
  Conversions and arithmetic round the exact result to the nearest binary64 number, ties
  to the even mantissa. A result of magnitude \<open>2^1024 - 2^970\<close> or more (half-way
  between the largest binary64 number and \<open>2^1024\<close>) is out of range: a conversion of an
  \<open>int\<close> (\<open>float(n)\<close>, \<open>n / k\<close> on two ints) raises \<open>OverflowError\<close> there, and float
  arithmetic gives an infinity.
\<close>

definition round_half_even :: "real \<Rightarrow> int" where
  "round_half_even r =
     (if r - of_int \<lfloor>r\<rfloor> < 1 / 2 then \<lfloor>r\<rfloor>
      else if 1 / 2 < r - of_int \<lfloor>r\<rfloor> then \<lfloor>r\<rfloor> + 1
      else if even \<lfloor>r\<rfloor> then \<lfloor>r\<rfloor>
      else \<lfloor>r\<rfloor> + 1)"

definition pow2 :: "int \<Rightarrow> real" where
  "pow2 e = (if 0 \<le> e then 2 ^ nat e else 1 / 2 ^ nat (- e))"

text \<open>The number of binary digits of \<open>n > 0\<close>.\<close>

function bit_length :: "int \<Rightarrow> int" where
  "bit_length n = (if n \<le> 0 then 0 else 1 + bit_length (n div 2))"
  by pat_completeness auto
termination
  by (relation "measure nat") auto

declare bit_length.simps [simp del]

text \<open>For \<open>0 < q\<close>, the exponent \<open>e\<close> with \<open>2^e \<le> q < 2^(e+1)\<close>.\<close>

definition binary_exponent :: "real \<Rightarrow> int" where
  "binary_exponent q =
     (if 1 \<le> q then bit_length \<lfloor>q\<rfloor> - 1 else - bit_length (\<lceil>1 / q\<rceil> - 1))"

definition double_overflow_bound :: real where
  "double_overflow_bound = 2 ^ 1024 - 2 ^ 970"

text \<open>
  A binary64 number near \<open>a > 0\<close> is a multiple of \<open>2^p\<close>, where \<open>p\<close> leaves 53 binary
  digits to the mantissa and is at least \<open>-1074\<close> (the subnormal numbers).
\<close>

definition double_exponent :: "real \<Rightarrow> int" where
  "double_exponent a = max (binary_exponent a - 52) (- 1074)"

definition make_float :: "bool \<Rightarrow> int \<Rightarrow> int \<Rightarrow> pyfloat" where
  "make_float negative m p =
     (if m = 0 then (if negative then NegZero else Finite 0)
      else Finite ((if negative then - 1 else 1) * of_int m * pow2 p))"

definition round_to_double :: "real \<Rightarrow> pyfloat" where
  "round_to_double q =
     (if q = 0 then Finite 0
      else make_float (q < 0)
             (round_half_even (\<bar>q\<bar> / pow2 (double_exponent \<bar>q\<bar>)))
             (double_exponent \<bar>q\<bar>))"

definition ieee_round :: "real \<Rightarrow> pyfloat" where
  "ieee_round q =
     (if double_overflow_bound \<le> \<bar>q\<bar> then (if q < 0 then NegInf else PosInf)
      else round_to_double q)"

text \<open>\<open>float(n)\<close> for an int \<open>n\<close>.\<close>

definition float_of_int :: "int \<Rightarrow> exn + pyfloat" where
  "float_of_int n =
     (if double_overflow_bound \<le> \<bar>of_int n\<bar>
      then Inl (Exn OverflowError ''int too large to convert to float'')
      else Inr (round_to_double (of_int n)))"

text \<open>\<open>a / b\<close> on two ints: the exact quotient, rounded once.\<close>

definition int_truediv :: "int \<Rightarrow> int \<Rightarrow> exn + pyfloat" where
  "int_truediv a b =
     (if b = 0 then Inl (Exn ZeroDivisionError ''division by zero'')
      else if double_overflow_bound \<le> \<bar>of_int a / of_int b\<bar>
      then Inl (Exn OverflowError ''integer division result too large for a float'')
      else Inr (round_to_double (of_int a / of_int b)))"

text \<open>\<open>x / b\<close> for a float \<open>x\<close> and an int \<open>b\<close>: \<open>b\<close> is converted, then IEEE division.\<close>

fun float_div :: "pyfloat \<Rightarrow> pyfloat \<Rightarrow> exn + pyfloat" where
  "float_div x (Finite d) =
     (if d = 0 then Inl (Exn ZeroDivisionError ''float division by zero'')
      else case x of
        Finite q \<Rightarrow>
          Inr (if q = 0 then (if d < 0 then NegZero else Finite 0) else ieee_round (q / d))
      | NegZero \<Rightarrow> Inr (if d < 0 then Finite 0 else NegZero)
      | PosInf \<Rightarrow> Inr (if d < 0 then NegInf else PosInf)
      | NegInf \<Rightarrow> Inr (if d < 0 then PosInf else NegInf)
      | NaN \<Rightarrow> Inr NaN)"
| "float_div x NegZero = Inl (Exn ZeroDivisionError ''float division by zero'')"
| "float_div x PosInf =
     (case x of
        Finite q \<Rightarrow> Inr (if q < 0 then NegZero else Finite 0)
      | NegZero \<Rightarrow> Inr NegZero
      | _ \<Rightarrow> Inr NaN)"
| "float_div x NegInf =
     (case x of
        Finite q \<Rightarrow> Inr (if q < 0 then Finite 0 else NegZero)
      | NegZero \<Rightarrow> Inr (Finite 0)
      | _ \<Rightarrow> Inr NaN)"
| "float_div x NaN = Inr NaN"

definition float_truediv_int :: "pyfloat \<Rightarrow> int \<Rightarrow> exn + pyfloat" where
  "float_truediv_int x b =
     (case float_of_int b of Inl e \<Rightarrow> Inl e | Inr d \<Rightarrow> float_div x d)"

fun num_truediv :: "pynum \<Rightarrow> int \<Rightarrow> exn + pyfloat" where
  "num_truediv (NInt a) b = int_truediv a b"
| "num_truediv (NFloat x) b = float_truediv_int x b"

fun num_to_float :: "pynum \<Rightarrow> exn + pyfloat" where
  "num_to_float (NInt n) = float_of_int n"
| "num_to_float (NFloat x) = Inr x"

text \<open>\<open>x * 100\<close>, the first step of the \<open>%\<close> presentation type.\<close>

fun float_times_100 :: "pyfloat \<Rightarrow> pyfloat" where
  "float_times_100 (Finite q) = ieee_round (q * 100)"
| "float_times_100 x = x"

subsection \<open>Format specifications \<open>.2f\<close> and \<open>.2%\<close>\<close>

text \<open>The decimal digit of the units of \<open>d\<close>, and the decimal numeral of \<open>n \<ge> 0\<close>.\<close>

definition digit_char :: "int \<Rightarrow> char" where
  "digit_char d = ''0123456789'' ! nat (d mod 10)"

function show_nat :: "int \<Rightarrow> string" where
  "show_nat n = (if n < 10 then [digit_char n] else show_nat (n div 10) @ [digit_char n])"
  by pat_completeness auto
termination
  by (relation "measure nat") auto

declare show_nat.simps [simp del]

text \<open>A count \<open>n \<ge> 0\<close> of hundredths as a decimal with two places.\<close>

definition fixed2 :: "int \<Rightarrow> string" where
  "fixed2 n = show_nat (n div 100) @ ''.'' @ [digit_char (n div 10), digit_char n]"

text \<open>
  \<open>format(x, '.2f')\<close> for a float: the exact value rounded to two decimals, ties to even;
  a negative value keeps its sign when it rounds to zero.
\<close>

fun fmt_2f :: "pyfloat \<Rightarrow> string" where
  "fmt_2f (Finite q) =
     (if q < 0 then ''-'' else '''') @ fixed2 (round_half_even (\<bar>q\<bar> * 100))"
| "fmt_2f NegZero = ''-0.00''"
| "fmt_2f PosInf = ''inf''"
| "fmt_2f NegInf = ''-inf''"
| "fmt_2f NaN = ''nan''"

text \<open>The message of the \<open>ValueError\<close> a type raises on a format code it does not know.\<close>

definition unknown_format_code :: "string \<Rightarrow> string \<Rightarrow> string" where
  "unknown_format_code code type_name =
     ''Unknown format code '' @ quoted code @ '' for object of type '' @ quoted type_name"

text \<open>
  The exception a value that is not a number raises on a float format code: \<open>str\<close> does
  not know the code, and \<open>None\<close> takes no format specification at all.
\<close>

definition format_refused :: "string \<Rightarrow> pyval \<Rightarrow> exn" where
  "format_refused code v =
     (case v of
        PyStr s \<Rightarrow> Exn ValueError (unknown_format_code code ''str'')
      | _ \<Rightarrow> Exn TypeError ''unsupported format string passed to NoneType.__format__'')"

text \<open>
  \<open>format(v, '.2f')\<close>, as an f-string field \<open>{v:.2f}\<close> evaluates it: a number is
  converted to float.
\<close>

definition format_2f :: "pyval \<Rightarrow> exn + string" where
  "format_2f v =
     (case as_number v of
        Some n \<Rightarrow> (case num_to_float n of Inl e \<Rightarrow> Inl e | Inr x \<Rightarrow> Inr (fmt_2f x))
      | None \<Rightarrow> Inl (format_refused ''f'' v))"

text \<open>\<open>format(v, '.2%')\<close>: the float times 100, two decimals, a percent sign.\<close>

definition format_2pct :: "pyval \<Rightarrow> exn + string" where
  "format_2pct v =
     (case as_number v of
        Some n \<Rightarrow>
          (case num_to_float n of
             Inl e \<Rightarrow> Inl e
           | Inr x \<Rightarrow> Inr (fmt_2f (float_times_100 x) @ ''%''))
      | None \<Rightarrow> Inl (format_refused ''%'' v))"

section \<open>Number Formatter: \<open>format_large_number\<close>\<close>

text \<open>
  \<^verbatim>\<open>
  def format_large_number(num):
      if isinstance(num, (int, float)):
          if num >= 1_000_000_000_000:
              return f"Rs{num / 1_000_000_000_000:.2f} Trillion"
          elif num >= 1_000_000_000:
              return f"Rs{num / 1_000_000_000:.2f} Billion"
          elif num >= 1_000_000:
              return f"Rs{num / 1_000_000:.2f} Million"
          else:
              return f"Rs{num:.2f}"
      return "N/A"
  \<close>
  (\<open>Rs\<close> stands for the rupee sign of the source.)
\<close>

definition tiered :: "pynum \<Rightarrow> int \<Rightarrow> string \<Rightarrow> exn + string" where
  "tiered n divisor unit =
     (case num_truediv n divisor of
        Inl e \<Rightarrow> Inl e
      | Inr x \<Rightarrow> Inr (rupee @ fmt_2f x @ unit))"

definition format_large_number :: "pyval \<Rightarrow> exn + string" where
  "format_large_number num =
     (case as_number num of
        Some n \<Rightarrow>
          if num_ge n 1000000000000 then tiered n 1000000000000 '' Trillion''
          else if num_ge n 1000000000 then tiered n 1000000000 '' Billion''
          else if num_ge n 1000000 then tiered n 1000000 '' Million''
          else (case num_to_float n of
                  Inl e \<Rightarrow> Inl e
                | Inr x \<Rightarrow> Inr (rupee @ fmt_2f x))
      | None \<Rightarrow> Inr ''N/A'')"

definition has_tier_suffix :: "string \<Rightarrow> bool" where
  "has_tier_suffix s =
     (suffix '' Trillion'' s \<or> suffix '' Billion'' s \<or> suffix '' Million'' s)"

text \<open>
  The numbers \<open>format_large_number\<close> formats without \<open>OverflowError\<close>: every float, and
  the ints above \<open>-(2^1024 - 2^970)\<close> whose quotient by \<open>10^12\<close> is below
  \<open>2^1024 - 2^970\<close>.
\<close>

definition formattable :: "pynum \<Rightarrow> bool" where
  "formattable n =
     (case n of
        NInt a \<Rightarrow>
          - double_overflow_bound < of_int a \<and>
          of_int a / 1000000000000 < double_overflow_bound
      | NFloat x \<Rightarrow> True)"

section \<open>Effects: the provider, the plotting library, the file system\<close>

text \<open>
  A call that reaches outside the program (a request to the market-data provider, a call
  into the plotting library) takes the state \<open>'w\<close> of the outside world and returns its
  result, or the exception it raised, with the new state. Two calls with the same
  arguments may so answer differently.
\<close>

type_synonym ('w, 'a) io = "'w \<Rightarrow> (exn + 'a) \<times> 'w"

definition io_return :: "'a \<Rightarrow> ('w, 'a) io" where
  "io_return x = (\<lambda>w. (Inr x, w))"

definition io_lift :: "exn + 'a \<Rightarrow> ('w, 'a) io" where
  "io_lift r = (\<lambda>w. (r, w))"

definition io_bind :: "('w, 'a) io \<Rightarrow> ('a \<Rightarrow> ('w, 'b) io) \<Rightarrow> ('w, 'b) io" where
  "io_bind m f = (\<lambda>w. case m w of (Inl e, w') \<Rightarrow> (Inl e, w') | (Inr x, w') \<Rightarrow> f x w')"

definition exn_bind :: "exn + 'a \<Rightarrow> ('a \<Rightarrow> exn + 'b) \<Rightarrow> exn + 'b" where
  "exn_bind r f = (case r of Inl e \<Rightarrow> Inl e | Inr x \<Rightarrow> f x)"

subsection \<open>The provider's tables\<close>

text \<open>
  The quarterly statement table is a data frame whose rows are line items (``Net Income'')
  and whose columns are reporting periods, most recent first. Row labels are taken to be
  unique, as the provider's are.
\<close>

record statement_table =
  st_columns :: "string list"
  st_rows :: "(string \<times> pyval list) list"

text \<open>\<open>DataFrame.empty\<close>: some axis has length 0.\<close>

definition st_empty :: "statement_table \<Rightarrow> bool" where
  "st_empty t = (st_columns t = [] \<or> st_rows t = [])"

text \<open>\<open>.iloc[:, :3]\<close>: the first three columns, fewer when the table has fewer.\<close>

definition iloc_first3 :: "statement_table \<Rightarrow> statement_table" where
  "iloc_first3 t =
     \<lparr>st_columns = take 3 (st_columns t),
      st_rows = map (\<lambda>(label, cells). (label, take 3 cells)) (st_rows t)\<rparr>"

text \<open>\<open>.loc[label].values\<close>: the cells of the row, \<open>KeyError\<close> when no row has the label.\<close>

definition loc_values :: "statement_table \<Rightarrow> string \<Rightarrow> exn + pyval list" where
  "loc_values t label =
     (case map_of (st_rows t) label of
        None \<Rightarrow> Inl (Exn KeyError (quoted label))
      | Some cells \<Rightarrow> Inr cells)"

text \<open>
  The price history is a data frame indexed by trading day, with the provider's fixed
  price columns; a row is kept here with its date and its High, Low and Close, each a
  float.
\<close>

record date =
  d_year :: int
  d_month :: nat
  d_day :: nat

record history_row =
  h_date :: date
  h_high :: pyfloat
  h_low :: pyfloat
  h_close :: pyfloat

type_synonym quarter = "int \<times> nat"

subsection \<open>The plotting library\<close>

text \<open>
  The calls \<open>plot_visualizations\<close> makes, with the arguments it passes: the axes index,
  then the data. Whether a call raises is the library's business.
\<close>

datatype plt_call =
    Subplots nat nat
  | Bar nat "string list" "pyval list" string
  | SetTitle nat string
  | SetYLabel nat string
  | Text nat nat pyval string
  | Plot nat "string list" "pyfloat list" string string
  | Legend nat
  | TightLayout
  | SaveFig

record ('w, 'img) env =
  yf_info :: "string \<Rightarrow> ('w, string \<rightharpoonup> pyval) io"
  yf_history :: "string \<Rightarrow> string \<Rightarrow> ('w, history_row list) io"
  yf_quarterly_financials :: "string \<Rightarrow> ('w, statement_table) io"
  quarterly_mean :: "history_row list \<Rightarrow> exn + (quarter \<times> pyfloat \<times> pyfloat) list"
  plt :: "plt_call \<Rightarrow> ('w, unit) io"
  image_open :: "('w, 'img) io"
  float_repr :: "pyfloat \<Rightarrow> string"

text \<open>
  \<open>yf_info env t\<close> is \<open>yf.Ticker(t).info\<close>, \<open>yf_history env t p\<close> is
  \<open>yf.Ticker(t).history(period=p)\<close> and \<open>yf_quarterly_financials env t\<close> is
  \<open>yf.Ticker(t).quarterly_financials\<close>. \<open>quarterly_mean env hist\<close> is what the data-frame
  library computes for \<open>hist.index.to_period('Q')\<close> followed by
  \<open>hist.groupby('Quarter')[['High', 'Low']].mean()\<close>: the frame of per-quarter means, a
  row for each quarter with its label and the two means, or the exception the library
  raises. \<open>image_open\<close> is \<open>Image.open\<close> on the saved
  stream, and \<open>float_repr\<close> is Python's \<open>repr\<close> of a float (the shortest string that
  reads back as the same number), which the script uses and does not define.
\<close>

section \<open>Market Data Client: \<open>get_quarterly_financials\<close>\<close>

text \<open>
  \<^verbatim>\<open>
  def get_quarterly_financials(ticker):
      stock = yf.Ticker(ticker)
      quarterly_financials = stock.quarterly_financials
      if not quarterly_financials.empty:
          latest_quarters = quarterly_financials.iloc[:, :3]
          net_profit = latest_quarters.loc["Net Income"].values
          sales = latest_quarters.loc["Total Revenue"].values
          operating_income = latest_quarters.loc["Operating Income"].values
      else:
          net_profit = sales = operating_income = ["N/A"] * 3
      return net_profit, sales, operating_income
  \<close>
\<close>

definition sentinels :: "pyval list" where
  "sentinels = [PyStr ''N/A'', PyStr ''N/A'', PyStr ''N/A'']"

definition select_rows :: "statement_table \<Rightarrow> exn + pyval list \<times> pyval list \<times> pyval list" where
  "select_rows quarterly_financials =
     (if \<not> st_empty quarterly_financials then
        exn_bind (loc_values (iloc_first3 quarterly_financials) ''Net Income'') (\<lambda>net_profit.
        exn_bind (loc_values (iloc_first3 quarterly_financials) ''Total Revenue'') (\<lambda>sales.
        exn_bind (loc_values (iloc_first3 quarterly_financials) ''Operating Income'')
          (\<lambda>operating_income.
        Inr (net_profit, sales, operating_income))))
      else Inr (sentinels, sentinels, sentinels))"

definition get_quarterly_financials ::
  "('w, 'img) env \<Rightarrow> string \<Rightarrow> ('w, pyval list \<times> pyval list \<times> pyval list) io" where
  "get_quarterly_financials env ticker =
     io_bind (yf_quarterly_financials env ticker) (\<lambda>quarterly_financials.
     io_lift (select_rows quarterly_financials))"

section \<open>Metrics Aggregator: \<open>get_stock_info\<close>\<close>

text \<open>
  \<^verbatim>\<open>
  def get_stock_info(ticker):
      stock = yf.Ticker(ticker)
      info = stock.info
      name = info.get('longName', 'N/A')
      market_cap = info.get('marketCap', 'N/A')
      current_price = stock.history(period="1d")["Close"].iloc[-1]
          if not stock.history(period="1d").empty else "N/A"
      pe_ratio = info.get('forwardPE', 'N/A')
      dividend_yield = info.get('dividendYield', 'N/A')
      ...
      net_profit, sales, operating_income = get_quarterly_financials(ticker)
      return {
          "Company Name": name,
          "Ticker": ticker,
          "Current Price": format_large_number(current_price),
          "Market Cap": format_large_number(market_cap),
          "PE Ratio": pe_ratio,
          "Dividend Yield": f"{dividend_yield:.2%}" if dividend_yield else "N/A",
          "EPS": format_large_number(eps),
          "Revenue": format_large_number(revenue),
          "Net Profit (Last Quarter)": format_large_number(net_profit[0]),
          "Sales (Last Quarter)": format_large_number(sales[0]),
          "Operating Income (Last Quarter)": format_large_number(operating_income[0]),
          "Beta": beta,
          "52-Week High": format_large_number(fifty_two_week_high),
          "52-Week Low": format_large_number(fifty_two_week_low),
          "Sector": sector,
          "Recommendation": recommendation
      }
  \<close>
\<close>

text \<open>\<open>info.get(key, 'N/A')\<close>.\<close>

definition info_get :: "(string \<rightharpoonup> pyval) \<Rightarrow> string \<Rightarrow> pyval" where
  "info_get info key = (case info key of None \<Rightarrow> PyStr ''N/A'' | Some v \<Rightarrow> v)"

text \<open>The truth value of a Python value, as \<open>if v\<close> tests it.\<close>

fun truthy :: "pyval \<Rightarrow> bool" where
  "truthy (PyInt n) = (n \<noteq> 0)"
| "truthy (PyBool b) = b"
| "truthy (PyFloat x) = (case x of Finite q \<Rightarrow> q \<noteq> 0 | NegZero \<Rightarrow> False | _ \<Rightarrow> True)"
| "truthy (PyStr s) = (s \<noteq> [])"
| "truthy PyNone = False"

text \<open>\<open>xs[0]\<close> on a sequence.\<close>

definition index0 :: "pyval list \<Rightarrow> exn + pyval" where
  "index0 xs =
     (case xs of
        [] \<Rightarrow> Inl (Exn IndexError ''index 0 is out of bounds for axis 0 with size 0'')
      | x # _ \<Rightarrow> Inr x)"

text \<open>
  The current price. The condition of the conditional expression is evaluated first, on
  one request for the one-day history; the price is read from a second request.
\<close>

definition current_price :: "('w, 'img) env \<Rightarrow> string \<Rightarrow> ('w, pyval) io" where
  "current_price env ticker =
     io_bind (yf_history env ticker ''1d'') (\<lambda>probe.
     if probe \<noteq> [] then
       io_bind (yf_history env ticker ''1d'') (\<lambda>hist.
       io_lift (case hist of
                  [] \<Rightarrow> Inl (Exn IndexError ''single positional indexer is out-of-bounds'')
                | _ \<Rightarrow> Inr (PyFloat (h_close (last hist)))))
     else io_return (PyStr ''N/A''))"

definition dividend_field :: "pyval \<Rightarrow> exn + string" where
  "dividend_field dividend_yield =
     (if truthy dividend_yield then format_2pct dividend_yield else Inr ''N/A'')"

definition stock_info_keys :: "string list" where
  "stock_info_keys =
     [''Company Name'', ''Ticker'', ''Current Price'', ''Market Cap'', ''PE Ratio'',
      ''Dividend Yield'', ''EPS'', ''Revenue'', ''Net Profit (Last Quarter)'',
      ''Sales (Last Quarter)'', ''Operating Income (Last Quarter)'', ''Beta'',
      ''52-Week High'', ''52-Week Low'', ''Sector'', ''Recommendation'']"

text \<open>The dictionary display: its values are computed in the order they are written.\<close>

definition stock_info_dict ::
  "(string \<rightharpoonup> pyval) \<Rightarrow> string \<Rightarrow> pyval \<Rightarrow> pyval list \<Rightarrow> pyval list \<Rightarrow> pyval list \<Rightarrow>
     exn + (string \<times> pyval) list" where
  "stock_info_dict info ticker price net_profit sales operating_income =
     exn_bind (format_large_number price) (\<lambda>f_price.
     exn_bind (format_large_number (info_get info ''marketCap'')) (\<lambda>f_market_cap.
     exn_bind (dividend_field (info_get info ''dividendYield'')) (\<lambda>f_dividend.
     exn_bind (format_large_number (info_get info ''trailingEps'')) (\<lambda>f_eps.
     exn_bind (format_large_number (info_get info ''totalRevenue'')) (\<lambda>f_revenue.
     exn_bind (exn_bind (index0 net_profit) format_large_number) (\<lambda>f_net_profit.
     exn_bind (exn_bind (index0 sales) format_large_number) (\<lambda>f_sales.
     exn_bind (exn_bind (index0 operating_income) format_large_number) (\<lambda>f_operating.
     exn_bind (format_large_number (info_get info ''fiftyTwoWeekHigh'')) (\<lambda>f_high.
     exn_bind (format_large_number (info_get info ''fiftyTwoWeekLow'')) (\<lambda>f_low.
     Inr [(''Company Name'', info_get info ''longName''),
          (''Ticker'', PyStr ticker),
          (''Current Price'', PyStr f_price),
          (''Market Cap'', PyStr f_market_cap),
          (''PE Ratio'', info_get info ''forwardPE''),
          (''Dividend Yield'', PyStr f_dividend),
          (''EPS'', PyStr f_eps),
          (''Revenue'', PyStr f_revenue),
          (''Net Profit (Last Quarter)'', PyStr f_net_profit),
          (''Sales (Last Quarter)'', PyStr f_sales),
          (''Operating Income (Last Quarter)'', PyStr f_operating),
          (''Beta'', info_get info ''beta''),
          (''52-Week High'', PyStr f_high),
          (''52-Week Low'', PyStr f_low),
          (''Sector'', info_get info ''sector''),
          (''Recommendation'', info_get info ''recommendationKey'')]))))))))))"

definition get_stock_info ::
  "('w, 'img) env \<Rightarrow> string \<Rightarrow> ('w, (string \<times> pyval) list) io" where
  "get_stock_info env ticker =
     io_bind (yf_info env ticker) (\<lambda>info.
     io_bind (current_price env ticker) (\<lambda>price.
     io_bind (get_quarterly_financials env ticker) (\<lambda>(net_profit, sales, operating_income).
     io_lift (stock_info_dict info ticker price net_profit sales operating_income))))"

section \<open>Quarterly Averager: \<open>calculate_quarterly_averages\<close>\<close>

text \<open>
  \<^verbatim>\<open>
  def calculate_quarterly_averages(ticker):
      stock = yf.Ticker(ticker)
      hist = stock.history(period="1y")
      hist['Quarter'] = hist.index.to_period('Q')
      quarterly_data = hist.groupby('Quarter')[['High', 'Low']].mean()
      return quarterly_data
  \<close>
  The function requests the one-year history and hands it to the data-frame library;
  the grouping and the means are the library's, the parameter \<open>quarterly_mean\<close>.
\<close>

definition calculate_quarterly_averages ::
  "('w, 'img) env \<Rightarrow> string \<Rightarrow> ('w, (quarter \<times> pyfloat \<times> pyfloat) list) io" where
  "calculate_quarterly_averages env ticker =
     io_bind (yf_history env ticker ''1y'') (\<lambda>hist.
     io_lift (quarterly_mean env hist))"

section \<open>Chart Renderer: \<open>plot_visualizations\<close>\<close>

text \<open>
  \<^verbatim>\<open>
  def plot_visualizations(ticker, net_profit, sales, quarterly_high_low):
      fig, axes = plt.subplots(3, 1, figsize=(10, 15))
      axes[0].bar(['Q1', 'Q2', 'Q3'], net_profit, color='blue')
      axes[0].set_title(f"{ticker} - Net Profit (Last 3 Quarters)")
      axes[0].set_ylabel("Rs")
      for i, v in enumerate(net_profit):
          axes[0].text(i, v, f"Rs{v:.2f}", ha='center', va='bottom', fontsize=9)
      axes[1].bar(['Q1', 'Q2', 'Q3'], sales, color='orange')
      axes[1].set_title(f"{ticker} - Sales (Last 3 Quarters)")
      axes[1].set_ylabel("Rs")
      for i, v in enumerate(sales):
          axes[1].text(i, v, f"Rs{v:.2f}", ha='center', va='bottom', fontsize=9)
      quarters = quarterly_high_low.index.strftime('%Y-Q%q')
      axes[2].plot(quarters, quarterly_high_low['High'], label="High", color="green", marker='o')
      axes[2].plot(quarters, quarterly_high_low['Low'], label="Low", color="red", marker='o')
      axes[2].set_title(f"{ticker} - 52-Week High/Low Averages by Quarter")
      axes[2].set_ylabel("Rs")
      axes[2].legend()
      plt.tight_layout()
      image_stream = io.BytesIO()
      plt.savefig(image_stream, format="PNG")
      image_stream.seek(0)
      image = Image.open(image_stream)
      return image
  \<close>
\<close>

text \<open>
  The annotation loop: the label \<open>f"Rs{v:.2f}"\<close> is formatted first, then passed to
  \<open>text\<close>.
\<close>

fun annotate :: "('w, 'img) env \<Rightarrow> nat \<Rightarrow> nat \<Rightarrow> pyval list \<Rightarrow> ('w, unit) io" where
  "annotate env ax i [] = io_return ()"
| "annotate env ax i (v # vs) =
     io_bind (io_lift (format_2f v)) (\<lambda>label.
     io_bind (plt env (Text ax i v (rupee @ label))) (\<lambda>_.
     annotate env ax (i + 1) vs))"

text \<open>\<open>strftime('%Y-Q%q')\<close> on a quarter.\<close>

definition quarter_label :: "quarter \<Rightarrow> string" where
  "quarter_label k = show_nat (fst k) @ ''-Q'' @ show_nat (int (snd k))"

definition bar_panel ::
  "('w, 'img) env \<Rightarrow> nat \<Rightarrow> pyval list \<Rightarrow> string \<Rightarrow> string \<Rightarrow> ('w, unit) io" where
  "bar_panel env ax heights colour title =
     io_bind (plt env (Bar ax [''Q1'', ''Q2'', ''Q3''] heights colour)) (\<lambda>_.
     io_bind (plt env (SetTitle ax title)) (\<lambda>_.
     io_bind (plt env (SetYLabel ax rupee)) (\<lambda>_.
     annotate env ax 0 heights)))"

definition line_panel ::
  "('w, 'img) env \<Rightarrow> string \<Rightarrow> (quarter \<times> pyfloat \<times> pyfloat) list \<Rightarrow> ('w, unit) io" where
  "line_panel env ticker quarterly_high_low =
     io_bind (plt env (Plot 2 (map (\<lambda>(k, h, l). quarter_label k) quarterly_high_low)
                (map (\<lambda>(k, h, l). h) quarterly_high_low) ''High'' ''green'')) (\<lambda>_.
     io_bind (plt env (Plot 2 (map (\<lambda>(k, h, l). quarter_label k) quarterly_high_low)
                (map (\<lambda>(k, h, l). l) quarterly_high_low) ''Low'' ''red'')) (\<lambda>_.
     io_bind (plt env (SetTitle 2 (ticker @ '' - 52-Week High/Low Averages by Quarter''))) (\<lambda>_.
     io_bind (plt env (SetYLabel 2 rupee)) (\<lambda>_.
     plt env (Legend 2)))))"

definition plot_visualizations ::
  "('w, 'img) env \<Rightarrow> string \<Rightarrow> pyval list \<Rightarrow> pyval list \<Rightarrow>
     (quarter \<times> pyfloat \<times> pyfloat) list \<Rightarrow> ('w, 'img) io" where
  "plot_visualizations env ticker net_profit sales quarterly_high_low =
     io_bind (plt env (Subplots 3 1)) (\<lambda>_.
     io_bind (bar_panel env 0 net_profit ''blue''
                (ticker @ '' - Net Profit (Last 3 Quarters)'')) (\<lambda>_.
     io_bind (bar_panel env 1 sales ''orange'' (ticker @ '' - Sales (Last 3 Quarters)'')) (\<lambda>_.
     io_bind (line_panel env ticker quarterly_high_low) (\<lambda>_.
     io_bind (plt env TightLayout) (\<lambda>_.
     io_bind (plt env SaveFig) (\<lambda>_.
     image_open env))))))"

section \<open>Request Handler: \<open>main\<close>\<close>

text \<open>
  \<^verbatim>\<open>
  def main(ticker_symbol):
      ticker = f"{ticker_symbol}.NS"
      try:
          stock_info = get_stock_info(ticker)
          net_profit, sales, _ = get_quarterly_financials(ticker)
          quarterly_high_low = calculate_quarterly_averages(ticker)
          visual_image = plot_visualizations(ticker, net_profit, sales, quarterly_high_low)
          stock_info_md = "\n\n".join([f"**{key}**: {value}" for key, value in stock_info.items()])
          return stock_info_md, visual_image
      except Exception as e:
          return f"Error fetching data for {ticker}: {e}", None
  \<close>
\<close>

text \<open>\<open>str(v)\<close>, as an f-string field \<open>{value}\<close> gives it.\<close>

definition py_str :: "('w, 'img) env \<Rightarrow> pyval \<Rightarrow> string" where
  "py_str env v =
     (case v of
        PyStr s \<Rightarrow> s
      | PyInt n \<Rightarrow> (if n < 0 then ''-'' @ show_nat (- n) else show_nat n)
      | PyBool b \<Rightarrow> (if b then ''True'' else ''False'')
      | PyFloat x \<Rightarrow> float_repr env x
      | PyNone \<Rightarrow> ''None'')"

definition md_line :: "('w, 'img) env \<Rightarrow> string \<times> pyval \<Rightarrow> string" where
  "md_line env item = ''**'' @ fst item @ ''**: '' @ py_str env (snd item)"

text \<open>\<open>sep.join(parts)\<close>.\<close>

fun join :: "string \<Rightarrow> string list \<Rightarrow> string" where
  "join sep [] = []"
| "join sep [x] = x"
| "join sep (x # y # ys) = x @ sep @ join sep (y # ys)"

definition stock_info_md :: "('w, 'img) env \<Rightarrow> (string \<times> pyval) list \<Rightarrow> string" where
  "stock_info_md env stock_info = join [CHR 0x0A, CHR 0x0A] (map (md_line env) stock_info)"

text \<open>The body of the \<open>try\<close>.\<close>

definition main_try :: "('w, 'img) env \<Rightarrow> string \<Rightarrow> ('w, string \<times> 'img) io" where
  "main_try env ticker =
     io_bind (get_stock_info env ticker) (\<lambda>stock_info.
     io_bind (get_quarterly_financials env ticker) (\<lambda>(net_profit, sales, _).
     io_bind (calculate_quarterly_averages env ticker) (\<lambda>quarterly_high_low.
     io_bind (plot_visualizations env ticker net_profit sales quarterly_high_low)
       (\<lambda>visual_image.
     io_return (stock_info_md env stock_info, visual_image)))))"

definition error_text :: "string \<Rightarrow> exn \<Rightarrow> string" where
  "error_text ticker e = ''Error fetching data for '' @ ticker @ '': '' @ exn_str e"

text \<open>
  The clause \<open>except Exception as e\<close>: an instance of \<open>Exception\<close> is turned into the
  error text with no image; any other exception is not caught and leaves \<open>main\<close>.
\<close>

definition except_Exception :: "string \<Rightarrow> exn \<Rightarrow> exn + string \<times> 'img option" where
  "except_Exception ticker e =
     (if is_exception e then Inr (error_text ticker e, None) else Inl e)"

definition main ::
  "('w, 'img) env \<Rightarrow> string \<Rightarrow> 'w \<Rightarrow> (exn + string \<times> 'img option) \<times> 'w" where
  "main env ticker_symbol w =
     (case main_try env (ticker_symbol @ ''.NS'') w of
        (Inr (md, visual_image), w') \<Rightarrow> (Inr (md, Some visual_image), w')
      | (Inl e, w') \<Rightarrow> (except_Exception (ticker_symbol @ ''.NS'') e, w'))"

section \<open>Symbol Catalog Loader: \<open>load_stocks\<close>\<close>

text \<open>
  \<^verbatim>\<open>
  def load_stocks():
      try:
          nse_data = pd.read_csv('nse_stocks.csv')
          return nse_data['SYMBOL'].tolist()
      except FileNotFoundError:
          return []
  \<close>
  The file system maps a path to the file there, if any. \<open>pd.read_csv\<close> raises
  \<open>FileNotFoundError\<close> on a path with no file and parses the file otherwise; what the
  parser makes of a file's content is the parameter \<open>parse\<close>. A parsed table is its
  columns, each a name with its values.
\<close>

type_synonym csv_table = "(string \<times> pyval list) list"

definition read_csv ::
  "(string \<rightharpoonup> 'f) \<Rightarrow> ('f \<Rightarrow> exn + csv_table) \<Rightarrow> string \<Rightarrow> exn + csv_table" where
  "read_csv fs parse path =
     (case fs path of
        None \<Rightarrow>
          Inl (Exn FileNotFoundError
                (''[Errno 2] No such file or directory: '' @ quoted path))
      | Some content \<Rightarrow> parse content)"

definition column_tolist :: "csv_table \<Rightarrow> string \<Rightarrow> exn + pyval list" where
  "column_tolist t name =
     (case map_of t name of
        None \<Rightarrow> Inl (Exn KeyError (quoted name))
      | Some col \<Rightarrow> Inr col)"

definition load_stocks :: "(string \<rightharpoonup> 'f) \<Rightarrow> ('f \<Rightarrow> exn + csv_table) \<Rightarrow> exn + pyval list" where
  "load_stocks fs parse =
     (case exn_bind (read_csv fs parse ''nse_stocks.csv'') (\<lambda>nse_data.
             column_tolist nse_data ''SYMBOL'') of
        Inr symbols \<Rightarrow> Inr symbols
      | Inl e \<Rightarrow> (if exn_class_of e = FileNotFoundError then Inr [] else Inl e))"

section \<open>An example environment\<close>

text \<open>
  An environment to run the program in: a provider that answers every request with the
  same profile, statement table and price history, a data-frame library that gives the
  two quarterly rows below for that history, and a plotting library that accepts every
  call. The dividend yield is the binary64 number nearest to \<open>0.0234\<close>.
\<close>

definition example_info :: "string \<rightharpoonup> pyval" where
  "example_info =
     [''longName'' \<mapsto> PyStr ''Example Industries Limited'',
      ''marketCap'' \<mapsto> PyInt 2500000000000,
      ''forwardPE'' \<mapsto> PyInt 21,
      ''dividendYield'' \<mapsto> PyFloat (Finite (6744590801950055 / 288230376151711744)),
      ''trailingEps'' \<mapsto> PyFloat (Finite (97 / 2)),
      ''totalRevenue'' \<mapsto> PyInt 9000000000,
      ''beta'' \<mapsto> PyInt 1,
      ''sector'' \<mapsto> PyStr ''Energy'',
      ''recommendationKey'' \<mapsto> PyStr ''buy'',
      ''fiftyTwoWeekHigh'' \<mapsto> PyInt 1600,
      ''fiftyTwoWeekLow'' \<mapsto> PyInt 1100]"

definition example_statement :: statement_table where
  "example_statement =
     \<lparr>st_columns = [''2024-06-30'', ''2024-03-31'', ''2023-12-31'', ''2023-09-30''],
      st_rows =
        [(''Total Revenue'',
            [PyFloat (Finite 2300000000), PyFloat (Finite 2200000000),
             PyFloat (Finite 2100000000), PyFloat (Finite 2000000000)]),
         (''Operating Income'',
            [PyFloat (Finite 400000000), PyFloat (Finite 300000000),
             PyFloat (Finite 200000000), PyFloat (Finite 100000000)]),
         (''Net Income'',
            [PyFloat (Finite 150000000), PyFloat (Finite (- 5000000)),
             PyFloat (Finite 2500000), PyFloat NaN])]\<rparr>"

definition example_history :: "history_row list" where
  "example_history =
     [\<lparr>h_date = \<lparr>d_year = 2024, d_month = 2, d_day = 14\<rparr>,
       h_high = Finite 110, h_low = Finite 100, h_close = Finite 105\<rparr>,
      \<lparr>h_date = \<lparr>d_year = 2024, d_month = 3, d_day = 15\<rparr>,
       h_high = Finite 100, h_low = Finite 90, h_close = Finite 95\<rparr>,
      \<lparr>h_date = \<lparr>d_year = 2024, d_month = 5, d_day = 2\<rparr>,
       h_high = Finite 120, h_low = Finite 110, h_close = Finite (231 / 2)\<rparr>]"

definition example_averages :: "(quarter \<times> pyfloat \<times> pyfloat) list" where
  "example_averages =
     [((2024, 1), Finite 105, Finite 95), ((2024, 2), Finite 120, Finite 110)]"

definition example_quarterly_mean ::
  "history_row list \<Rightarrow> exn + (quarter \<times> pyfloat \<times> pyfloat) list" where
  "example_quarterly_mean hist =
     (if hist = [] then Inl (Exn AttributeError ''to_period'') else Inr example_averages)"

definition example_env :: "(unit, nat) env" where
  "example_env =
     \<lparr>yf_info = (\<lambda>ticker. io_return example_info),
      yf_history = (\<lambda>ticker period. io_return example_history),
      yf_quarterly_financials = (\<lambda>ticker. io_return example_statement),
      quarterly_mean = example_quarterly_mean,
      plt = (\<lambda>call. io_return ()),
      image_open = io_return 0,
      float_repr = fmt_2f\<rparr>"

text \<open>
  The three rows \<open>get_quarterly_financials\<close> selects from the example table (the first
  three columns).
\<close>

definition example_rows :: "pyval list \<times> pyval list \<times> pyval list" where
  "example_rows =
     ([PyFloat (Finite 150000000), PyFloat (Finite (- 5000000)), PyFloat (Finite 2500000)],
      [PyFloat (Finite 2300000000), PyFloat (Finite 2200000000), PyFloat (Finite 2100000000)],
      [PyFloat (Finite 400000000), PyFloat (Finite 300000000), PyFloat (Finite 200000000)])"

text \<open>The mapping \<open>get_stock_info\<close> builds from these answers, for a ticker.\<close>

definition example_dict :: "string \<Rightarrow> (string \<times> pyval) list" where
  "example_dict ticker =
     [(''Company Name'', PyStr ''Example Industries Limited''),
      (''Ticker'', PyStr ticker),
      (''Current Price'', PyStr (rupee @ ''115.50'')),
      (''Market Cap'', PyStr (rupee @ ''2.50 Trillion'')),
      (''PE Ratio'', PyInt 21),
      (''Dividend Yield'', PyStr ''2.34%''),
      (''EPS'', PyStr (rupee @ ''48.50'')),
      (''Revenue'', PyStr (rupee @ ''9.00 Billion'')),
      (''Net Profit (Last Quarter)'', PyStr (rupee @ ''150.00 Million'')),
      (''Sales (Last Quarter)'', PyStr (rupee @ ''2.30 Billion'')),
      (''Operating Income (Last Quarter)'', PyStr (rupee @ ''400.00 Million'')),
      (''Beta'', PyInt 1),
      (''52-Week High'', PyStr (rupee @ ''1600.00'')),
      (''52-Week Low'', PyStr (rupee @ ''1100.00'')),
      (''Sector'', PyStr ''Energy''),
      (''Recommendation'', PyStr ''buy'')]"

text \<open>
  A provider whose state counts the statement requests it has answered: it answers the
  first with the table and fails every later one.
\<close>

definition flaky_env :: "(nat, nat) env" where
  "flaky_env =
     \<lparr>yf_info = (\<lambda>ticker. io_return example_info),
      yf_history = (\<lambda>ticker period. io_return example_history),
      yf_quarterly_financials =
        (\<lambda>ticker served.
           (if served = 0 then Inr example_statement
            else Inl (Exn (OtherError ''ConnectionError'') ''Connection reset by peer''),
            served + 1)),
      quarterly_mean = example_quarterly_mean,
      plt = (\<lambda>call. io_return ()),
      image_open = io_return 0,
      float_repr = fmt_2f\<rparr>"

section \<open>Facts about formatting\<close>

lemma last_fixed2: "last (fixed2 n) = digit_char n"
  by (simp add: fixed2_def)

lemma fixed2_nonempty: "fixed2 n \<noteq> []"
  by (simp add: fixed2_def)

lemma digit_char_not_n: "digit_char d \<noteq> CHR ''n''"
proof -
  have "0 \<le> d mod 10" "d mod 10 < 10" by simp_all
  then have "nat (d mod 10) \<in> {0,1,2,3,4,5,6,7,8,9}" by (simp; arith)
  then show ?thesis
    unfolding digit_char_def by auto
qed

lemma suffix_last: "suffix t s \<Longrightarrow> t \<noteq> [] \<Longrightarrow> last s = last t"
  by (auto simp: suffix_def)

lemma tier_suffix_last: "has_tier_suffix s \<Longrightarrow> last s = CHR ''n''"
  unfolding has_tier_suffix_def by (auto dest: suffix_last)

lemma tier_suffix_length: "has_tier_suffix s \<Longrightarrow> 8 \<le> length s"
  unfolding has_tier_suffix_def by (auto dest: suffix_length_le)

lemma fmt_2f_no_tier: "\<not> has_tier_suffix (rupee @ fmt_2f x)"
proof (cases x)
  case (Finite q)
  have "last (rupee @ fmt_2f x) = digit_char (round_half_even (\<bar>q\<bar> * 100))"
    using Finite by (simp add: fixed2_nonempty last_fixed2)
  then show ?thesis
    using tier_suffix_last digit_char_not_n by metis
next
  case NegZero
  then show ?thesis using tier_suffix_last [of "rupee @ fmt_2f x"] by (auto simp: rupee_def)
next
  case PosInf
  then show ?thesis using tier_suffix_last [of "rupee @ fmt_2f x"] by (auto simp: rupee_def)
next
  case NegInf
  then show ?thesis using tier_suffix_length [of "rupee @ fmt_2f x"] by (auto simp: rupee_def)
next
  case NaN
  then show ?thesis using tier_suffix_length [of "rupee @ fmt_2f x"] by (auto simp: rupee_def)
qed

lemma num_lt_not_ge:
  assumes "num_lt n j" "j \<le> k"
  shows "\<not> num_ge n k"
proof (cases n)
  case (NInt a)
  then show ?thesis using assms by simp
next
  case (NFloat x)
  show ?thesis
  proof (cases x)
    case (Finite q)
    have "real_of_int j \<le> real_of_int k"
      using assms(2) by simp
    moreover have "q < real_of_int j"
      using assms(1) NFloat Finite by simp
    ultimately have "\<not> real_of_int k \<le> q"
      by linarith
    then show ?thesis
      using NFloat Finite by simp
  qed (use assms NFloat in auto)
qed

lemma float_div_finite: "d \<noteq> 0 \<Longrightarrow> \<exists>y. float_div x (Finite d) = Inr y"
  by (cases x) auto

lemmas round_eval = round_to_double_def make_float_def double_exponent_def binary_exponent_def
  pow2_def round_half_even_def bit_length.simps

lemma float_of_int_trillion: "float_of_int 1000000000000 = Inr (Finite 1000000000000)"
  by (simp add: float_of_int_def double_overflow_bound_def round_eval)

lemma float_of_int_billion: "float_of_int 1000000000 = Inr (Finite 1000000000)"
  by (simp add: float_of_int_def double_overflow_bound_def round_eval)

lemma float_of_int_million: "float_of_int 1000000 = Inr (Finite 1000000)"
  by (simp add: float_of_int_def double_overflow_bound_def round_eval)

lemma overflow_bound_large: "1000000000000 < double_overflow_bound"
  by (simp add: double_overflow_bound_def)

lemma int_truediv_small:
  assumes "\<bar>real_of_int a / real_of_int d\<bar> < double_overflow_bound" "d \<noteq> 0"
  shows "\<exists>y. int_truediv a d = Inr y"
  using assms by (simp add: int_truediv_def)

lemma int_truediv_below:
  assumes "0 \<le> a" "a < 1000000000000" "1 \<le> d"
  shows "\<exists>y. int_truediv a d = Inr y"
proof (rule int_truediv_small)
  have d: "1 \<le> real_of_int d"
    using assms(3) by simp
  have "\<bar>real_of_int a\<bar> / real_of_int d \<le> \<bar>real_of_int a\<bar> / 1"
    by (rule divide_left_mono) (use d in auto)
  then have "\<bar>real_of_int a / real_of_int d\<bar> \<le> real_of_int a"
    using d assms(1) by simp
  moreover have "real_of_int a < 1000000000000"
    using assms(2) by simp
  ultimately show "\<bar>real_of_int a / real_of_int d\<bar> < double_overflow_bound"
    using overflow_bound_large by linarith
  show "d \<noteq> 0"
    using assms(3) by simp
qed

lemma float_truediv_tiers:
  assumes "d = 1000000000000 \<or> d = 1000000000 \<or> d = 1000000"
  shows "\<exists>y. float_truediv_int x d = Inr y"
  using assms float_div_finite [of _ x]
  by (auto simp: float_truediv_int_def float_of_int_trillion float_of_int_billion
      float_of_int_million)

lemma trillion_case:
  assumes "as_number v = Some n" "formattable n" "num_ge n 1000000000000"
  shows "\<exists>x. num_truediv n 1000000000000 = Inr x \<and>
             format_large_number v = Inr (rupee @ fmt_2f x @ '' Trillion'')"
proof -
  have "\<exists>x. num_truediv n 1000000000000 = Inr x"
  proof (cases n)
    case (NInt a)
    then have "0 \<le> real_of_int a" "real_of_int a / 1000000000000 < double_overflow_bound"
      using assms(2,3) by (simp_all add: formattable_def)
    then have "\<bar>real_of_int a / real_of_int 1000000000000\<bar> < double_overflow_bound"
      by simp
    then show ?thesis
      using NInt int_truediv_small [of a 1000000000000] by simp
  next
    case (NFloat x)
    then show ?thesis
      using float_truediv_tiers [of 1000000000000 x] by simp
  qed
  then show ?thesis
    using assms by (auto simp: format_large_number_def tiered_def)
qed

lemma billion_case:
  assumes "as_number v = Some n" "num_ge n 1000000000" "\<not> num_ge n 1000000000000"
  shows "\<exists>x. num_truediv n 1000000000 = Inr x \<and>
             format_large_number v = Inr (rupee @ fmt_2f x @ '' Billion'')"
proof -
  have "\<exists>x. num_truediv n 1000000000 = Inr x"
  proof (cases n)
    case (NInt a)
    then show ?thesis
      using assms(2,3) int_truediv_below [of a 1000000000] by simp
  next
    case (NFloat x)
    then show ?thesis
      using float_truediv_tiers [of 1000000000 x] by simp
  qed
  then show ?thesis
    using assms by (auto simp: format_large_number_def tiered_def)
qed

lemma million_case:
  assumes "as_number v = Some n" "num_ge n 1000000"
    "\<not> num_ge n 1000000000"  "\<not> num_ge n 1000000000000"
  shows "\<exists>x. num_truediv n 1000000 = Inr x \<and>
             format_large_number v = Inr (rupee @ fmt_2f x @ '' Million'')"
proof -
  have "\<exists>x. num_truediv n 1000000 = Inr x"
  proof (cases n)
    case (NInt a)
    then show ?thesis
      using assms(2,4) int_truediv_below [of a 1000000] by simp
  next
    case (NFloat x)
    then show ?thesis
      using float_truediv_tiers [of 1000000 x] by simp
  qed
  then show ?thesis
    using assms by (auto simp: format_large_number_def tiered_def)
qed

lemma plain_case:
  assumes "as_number v = Some n" "formattable n" "\<not> num_ge n 1000000"
    "\<not> num_ge n 1000000000"  "\<not> num_ge n 1000000000000"
  shows "\<exists>x. num_to_float n = Inr x \<and> format_large_number v = Inr (rupee @ fmt_2f x)"
proof -
  have "\<exists>x. num_to_float n = Inr x"
  proof (cases n)
    case (NInt a)
    then have "- double_overflow_bound < real_of_int a" "real_of_int a < 1000000"
      using assms(2,3) by (simp_all add: formattable_def)
    then have "\<bar>real_of_int a\<bar> < double_overflow_bound"
      using overflow_bound_large by linarith
    then show ?thesis
      using NInt by (simp add: float_of_int_def)
  next
    case (NFloat x)
    then show ?thesis by simp
  qed
  then show ?thesis
    using assms by (auto simp: format_large_number_def)
qed

text \<open>Outside the range, the conversion to float raises.\<close>

lemma overflow_case:
  assumes "as_number v = Some n" "\<not> formattable n"
  shows "(num_ge n 1000000000000 \<or> num_lt n 0) \<and>
         (\<exists>msg. format_large_number v = Inl (Exn OverflowError msg))"
proof (cases n)
  case (NInt a)
  show ?thesis
  proof (cases "- double_overflow_bound < real_of_int a")
    case True
    then have big: "double_overflow_bound \<le> real_of_int a / 1000000000000"
      using assms(2) NInt by (simp add: formattable_def)
    then have "1000000000000 < real_of_int a / 1000000000000"
      using overflow_bound_large by linarith
    then have "real_of_int 1000000000000 \<le> real_of_int a"
      by simp
    then have ge: "1000000000000 \<le> a"
      by (simp only: of_int_le_iff)
    then have "0 \<le> real_of_int a"
      by simp
    then have "double_overflow_bound \<le> \<bar>real_of_int a / real_of_int 1000000000000\<bar>"
      using big by simp
    then have "int_truediv a 1000000000000 =
        Inl (Exn OverflowError ''integer division result too large for a float'')"
      by (simp add: int_truediv_def)
    then show ?thesis
      using assms(1) NInt ge by (simp add: format_large_number_def tiered_def)
  next
    case False
    then have neg: "real_of_int a \<le> - double_overflow_bound"
      by simp
    then have "real_of_int a < real_of_int 0"
      using overflow_bound_large by linarith
    then have lt: "a < 0"
      by (simp only: of_int_less_iff)
    have "double_overflow_bound \<le> \<bar>real_of_int a\<bar>"
      using neg by linarith
    then have "float_of_int a = Inl (Exn OverflowError ''int too large to convert to float'')"
      by (simp add: float_of_int_def)
    then show ?thesis
      using assms(1) NInt lt by (simp add: format_large_number_def)
  qed
next
  case (NFloat x)
  then show ?thesis
    using assms(2) by (simp add: formattable_def)
qed

lemma has_tier_suffix_append:
  "has_tier_suffix (s @ '' Trillion'')" "has_tier_suffix (s @ '' Billion'')"
  "has_tier_suffix (s @ '' Million'')"
  by (simp_all add: has_tier_suffix_def suffix_def)

lemmas formatter_eval = format_large_number_def tiered_def int_truediv_def
  float_truediv_int_def float_of_int_def ieee_round_def double_overflow_bound_def round_eval
  fixed2_def show_nat.simps digit_char_def format_2pct_def format_2f_def

section \<open>The Number Formatter's tiers\<close>

text \<open>
  C1, as amended. For every number \<open>num\<close> that is a float, or an int (or bool) above
  \<open>-(2^1024 - 2^970)\<close> whose quotient by \<open>10^12\<close> is below \<open>2^1024 - 2^970\<close>: when
  \<open>num >= 10^12\<close> the result is the rupee sign, \<open>num / 10^12\<close> to two decimals and
  \<open>" Trillion"\<close>; when \<open>10^9 <= num < 10^12\<close> the same with \<open>10^9\<close> and \<open>" Billion"\<close>; when
  \<open>10^6 <= num < 10^9\<close> the same with \<open>10^6\<close> and \<open>" Million"\<close>; when \<open>num < 10^6\<close> it is
  the rupee sign and \<open>num\<close> to two decimals, which ends in none of the three unit
  suffixes. The comparisons are inclusive below, so each boundary value takes the higher
  tier. On every other int (one at or above \<open>10^12\<close>, or a negative one) the formatter
  raises \<open>OverflowError\<close> and returns no string.
\<close>

theorem format_large_number_tiers:
  "as_number v = Some n \<Longrightarrow>
     (formattable n \<longrightarrow>
        (num_ge n 1000000000000 \<longrightarrow>
           (\<exists>x. num_truediv n 1000000000000 = Inr x \<and>
                format_large_number v = Inr (rupee @ fmt_2f x @ '' Trillion''))) \<and>
        (num_ge n 1000000000 \<and> num_lt n 1000000000000 \<longrightarrow>
           (\<exists>x. num_truediv n 1000000000 = Inr x \<and>
                format_large_number v = Inr (rupee @ fmt_2f x @ '' Billion''))) \<and>
        (num_ge n 1000000 \<and> num_lt n 1000000000 \<longrightarrow>
           (\<exists>x. num_truediv n 1000000 = Inr x \<and>
                format_large_number v = Inr (rupee @ fmt_2f x @ '' Million''))) \<and>
        (num_lt n 1000000 \<longrightarrow>
           (\<exists>x. num_to_float n = Inr x \<and>
                format_large_number v = Inr (rupee @ fmt_2f x) \<and>
                \<not> has_tier_suffix (rupee @ fmt_2f x)))) \<and>
     (\<not> formattable n \<longrightarrow>
        (num_ge n 1000000000000 \<or> num_lt n 0) \<and>
        (\<exists>msg. format_large_number v = Inl (Exn OverflowError msg)))"
proof -
  assume v: "as_number v = Some n"
  have lt12: "num_lt n 1000000000000 \<Longrightarrow> \<not> num_ge n 1000000000000"
    by (auto dest: num_lt_not_ge [where k = 1000000000000])
  have lt9: "num_lt n 1000000000 \<Longrightarrow>
      \<not> num_ge n 1000000000 \<and> \<not> num_ge n 1000000000000"
    by (auto dest: num_lt_not_ge [where k = 1000000000]
        num_lt_not_ge [where k = 1000000000000])
  have lt6: "num_lt n 1000000 \<Longrightarrow>
      \<not> num_ge n 1000000 \<and> \<not> num_ge n 1000000000 \<and> \<not> num_ge n 1000000000000"
    by (auto dest: num_lt_not_ge [where k = 1000000] num_lt_not_ge [where k = 1000000000]
        num_lt_not_ge [where k = 1000000000000])
  show ?thesis
    using trillion_case [OF v] billion_case [OF v] million_case [OF v]
      plain_case [OF v] overflow_case [OF v] lt12 lt9 lt6 fmt_2f_no_tier
    by blast
qed

theorem format_large_number_tiers_witness:
  "format_large_number (PyInt 1000000000000) = Inr (rupee @ ''1.00 Trillion'') \<and>
   format_large_number (PyInt 1000000000) = Inr (rupee @ ''1.00 Billion'') \<and>
   format_large_number (PyFloat (Finite 1000000)) = Inr (rupee @ ''1.00 Million'') \<and>
   format_large_number (PyInt 999999) = Inr (rupee @ ''999999.00'') \<and>
   \<not> has_tier_suffix (rupee @ ''999999.00'') \<and>
   formattable (NInt (10 ^ 310)) \<and>
   (\<exists>x. format_large_number (PyInt (10 ^ 310)) = Inr (rupee @ fmt_2f x @ '' Trillion'')) \<and>
   \<not> formattable (NInt (- (10 ^ 400))) \<and>
   (\<exists>msg. format_large_number (PyInt (- (10 ^ 400))) = Inl (Exn OverflowError msg))"
proof -
  have a: "int_truediv 1000000000000 1000000000000 = Inr (Finite 1)"
    and b: "int_truediv 1000000000 1000000000 = Inr (Finite 1)"
    and c: "float_truediv_int (Finite 1000000) 1000000 = Inr (Finite 1)"
    and d: "float_of_int 999999 = Inr (Finite 999999)"
    by (simp_all add: formatter_eval)
  have e: "fixed2 (round_half_even 100) = ''1.00''"
    "fixed2 (round_half_even 99999900) = ''999999.00''"
    by (simp_all add: formatter_eval)
  have f: "formattable (NInt 1000000000000)" "formattable (NInt 1000000000)"
    "formattable (NInt 999999)" "formattable (NInt (10 ^ 310))"
    "\<not> formattable (NInt (- (10 ^ 400)))"
    by (simp_all add: formattable_def double_overflow_bound_def)
  have g: "formattable (NFloat (Finite 1000000))"
    by (simp add: formattable_def)
  have "format_large_number (PyInt 1000000000000) = Inr (rupee @ ''1.00 Trillion'')"
    using format_large_number_tiers [of "PyInt 1000000000000" "NInt 1000000000000"] f
    by (simp add: a e)
  moreover have "format_large_number (PyInt 1000000000) = Inr (rupee @ ''1.00 Billion'')"
    using format_large_number_tiers [of "PyInt 1000000000" "NInt 1000000000"] f
    by (simp add: b e)
  moreover have
    "format_large_number (PyFloat (Finite 1000000)) = Inr (rupee @ ''1.00 Million'')"
    using format_large_number_tiers [of "PyFloat (Finite 1000000)" "NFloat (Finite 1000000)"] g
    by (simp add: c e)
  moreover have "format_large_number (PyInt 999999) = Inr (rupee @ ''999999.00'') \<and>
      \<not> has_tier_suffix (rupee @ ''999999.00'')"
    using format_large_number_tiers [of "PyInt 999999" "NInt 999999"] f
    by (simp add: d e)
  moreover have
    "\<exists>x. format_large_number (PyInt (10 ^ 310)) = Inr (rupee @ fmt_2f x @ '' Trillion'')"
  proof -
    have n: "as_number (PyInt (10 ^ 310)) = Some (NInt (10 ^ 310))" by simp
    have h: "num_ge (NInt (10 ^ 310)) 1000000000000" by simp
    from format_large_number_tiers [OF n] f(4) h show ?thesis by blast
  qed
  moreover have
    "\<exists>msg. format_large_number (PyInt (- (10 ^ 400))) = Inl (Exn OverflowError msg)"
  proof -
    have n: "as_number (PyInt (- (10 ^ 400))) = Some (NInt (- (10 ^ 400)))" by simp
    from format_large_number_tiers [OF n] f(5) show ?thesis by blast
  qed
  ultimately show ?thesis
    using f by blast
qed

theorem format_large_number_overflow_counterexample:
  "num_ge (NInt (10 ^ 400)) 1000000000000 \<and>
   format_large_number (PyInt (10 ^ 400)) =
     Inl (Exn OverflowError ''integer division result too large for a float'')"
  by (simp add: format_large_number_def tiered_def int_truediv_def double_overflow_bound_def)

text \<open>
  C6, as amended. For every number whose value itself (not its magnitude) is at or
  above one million, and which is a float or an int whose quotient by \<open>10^12\<close> is below
  \<open>2^1024 - 2^970\<close>, the result ends in \<open>" Million"\<close>, \<open>" Billion"\<close> or \<open>" Trillion"\<close>.
  (On the ints at or above one million that are left out, the formatter raises
  \<open>OverflowError\<close>.)
\<close>

theorem format_large_number_unit_tier:
  assumes "as_number v = Some n" "num_ge n 1000000"
  shows "(formattable n \<longrightarrow> (\<exists>s. format_large_number v = Inr s \<and> has_tier_suffix s)) \<and>
         (\<not> formattable n \<longrightarrow>
            (\<exists>msg. format_large_number v = Inl (Exn OverflowError msg)))"
proof (intro conjI impI)
  assume f: "formattable n"
  show "\<exists>s. format_large_number v = Inr s \<and> has_tier_suffix s"
  proof (cases "num_ge n 1000000000000")
    case True
    then show ?thesis
      using trillion_case [OF assms(1) f] has_tier_suffix_append(1) [of "rupee @ _"] by auto
  next
    case no12: False
    show ?thesis
    proof (cases "num_ge n 1000000000")
      case True
      then show ?thesis
        using billion_case [OF assms(1)] no12 has_tier_suffix_append(2) [of "rupee @ _"]
        by auto
    next
      case False
      then show ?thesis
        using million_case [OF assms] no12 has_tier_suffix_append(3) [of "rupee @ _"]
        by auto
    qed
  qed
next
  assume "\<not> formattable n"
  then show "\<exists>msg. format_large_number v = Inl (Exn OverflowError msg)"
    using overflow_case [OF assms(1)] by blast
qed

theorem format_large_number_unit_tier_witness:
  "(\<exists>s. format_large_number (PyInt 2500000) = Inr s \<and> has_tier_suffix s) \<and>
   (\<exists>s. format_large_number (PyInt (10 ^ 310)) = Inr s \<and> has_tier_suffix s) \<and>
   (\<exists>msg. format_large_number (PyInt (10 ^ 400)) = Inl (Exn OverflowError msg))"
proof -
  have f: "formattable (NInt 2500000)" "formattable (NInt (10 ^ 310))"
    "\<not> formattable (NInt (10 ^ 400))"
    by (simp_all add: formattable_def double_overflow_bound_def)
  have "\<exists>s. format_large_number (PyInt 2500000) = Inr s \<and> has_tier_suffix s"
    using format_large_number_unit_tier [of "PyInt 2500000" "NInt 2500000"] f by simp
  moreover have "\<exists>s. format_large_number (PyInt (10 ^ 310)) = Inr s \<and> has_tier_suffix s"
  proof -
    have n: "as_number (PyInt (10 ^ 310)) = Some (NInt (10 ^ 310))" by simp
    have h: "num_ge (NInt (10 ^ 310)) 1000000" by simp
    from format_large_number_unit_tier [OF n h] f(2) show ?thesis by blast
  qed
  moreover have "\<exists>msg. format_large_number (PyInt (10 ^ 400)) = Inl (Exn OverflowError msg)"
  proof -
    have n: "as_number (PyInt (10 ^ 400)) = Some (NInt (10 ^ 400))" by simp
    have h: "num_ge (NInt (10 ^ 400)) 1000000" by simp
    from format_large_number_unit_tier [OF n h] f(3) show ?thesis by blast
  qed
  ultimately show ?thesis
    by blast
qed

theorem format_large_number_magnitude_counterexample:
  "(1000000 :: int) \<le> \<bar>- 5000000\<bar> \<and>
   format_large_number (PyInt (- 5000000)) = Inr (rupee @ ''-5000000.00'') \<and>
   \<not> has_tier_suffix (rupee @ ''-5000000.00'') \<and>
   (1000000 :: int) \<le> \<bar>10 ^ 400\<bar> \<and>
   format_large_number (PyInt (10 ^ 400)) =
     Inl (Exn OverflowError ''integer division result too large for a float'')"
proof -
  have "format_large_number (PyInt (- 5000000)) = Inr (rupee @ ''-5000000.00'')"
    by (simp add: formatter_eval)
  moreover have "\<not> has_tier_suffix (rupee @ ''-5000000.00'')"
    using tier_suffix_last [of "rupee @ ''-5000000.00''"] by auto
  moreover have "format_large_number (PyInt (10 ^ 400)) =
      Inl (Exn OverflowError ''integer division result too large for a float'')"
    by (simp add: format_large_number_def tiered_def int_truediv_def
        double_overflow_bound_def)
  ultimately show ?thesis by simp
qed

text \<open>
  C8. On every input that is not an \<open>int\<close> or a \<open>float\<close>, the sentinel string \<open>"N/A"\<close>
  among them, the Number Formatter returns exactly \<open>"N/A"\<close>.
\<close>

theorem format_large_number_non_numeric:
  "(\<not> isinstance_int_float v \<longrightarrow> format_large_number v = Inr ''N/A'') \<and>
   format_large_number (PyStr ''N/A'') = Inr ''N/A''"
  by (simp add: isinstance_int_float_def format_large_number_def)

theorem format_large_number_non_numeric_witness:
  "\<not> isinstance_int_float PyNone \<and> format_large_number PyNone = Inr ''N/A'' \<and>
   \<not> isinstance_int_float (PyStr ''N/A'')"
  using format_large_number_non_numeric [of PyNone] by (simp add: isinstance_int_float_def)

section \<open>The Market Data Client and the Metrics Aggregator\<close>

lemma io_return_apply: "io_return x w = (Inr x, w)"
  by (simp add: io_return_def)

lemma io_lift_apply: "io_lift r w = (r, w)"
  by (simp add: io_lift_def)

lemma io_bind_apply:
  "io_bind m f w = (case m w of (Inl e, w') \<Rightarrow> (Inl e, w') | (Inr x, w') \<Rightarrow> f x w')"
  by (simp add: io_bind_def)

lemmas io_defs = io_bind_apply io_return_apply io_lift_apply exn_bind_def

lemma example_select_rows: "select_rows example_statement = Inr example_rows"
  by (simp add: select_rows_def st_empty_def iloc_first3_def loc_values_def exn_bind_def
      example_statement_def example_rows_def)

lemma example_info_get:
  "info_get example_info ''longName'' = PyStr ''Example Industries Limited''"
  "info_get example_info ''marketCap'' = PyInt 2500000000000"
  "info_get example_info ''forwardPE'' = PyInt 21"
  "info_get example_info ''dividendYield'' =
     PyFloat (Finite (6744590801950055 / 288230376151711744))"
  "info_get example_info ''trailingEps'' = PyFloat (Finite (97 / 2))"
  "info_get example_info ''totalRevenue'' = PyInt 9000000000"
  "info_get example_info ''beta'' = PyInt 1"
  "info_get example_info ''sector'' = PyStr ''Energy''"
  "info_get example_info ''recommendationKey'' = PyStr ''buy''"
  "info_get example_info ''fiftyTwoWeekHigh'' = PyInt 1600"
  "info_get example_info ''fiftyTwoWeekLow'' = PyInt 1100"
  by (simp_all add: info_get_def example_info_def)

lemma example_formats:
  "format_large_number (PyFloat (Finite (231 / 2))) = Inr (rupee @ ''115.50'')"
  "format_large_number (PyInt 2500000000000) = Inr (rupee @ ''2.50 Trillion'')"
  "format_large_number (PyFloat (Finite (97 / 2))) = Inr (rupee @ ''48.50'')"
  "format_large_number (PyInt 9000000000) = Inr (rupee @ ''9.00 Billion'')"
  "format_large_number (PyFloat (Finite 150000000)) = Inr (rupee @ ''150.00 Million'')"
  "format_large_number (PyFloat (Finite 2300000000)) = Inr (rupee @ ''2.30 Billion'')"
  "format_large_number (PyFloat (Finite 400000000)) = Inr (rupee @ ''400.00 Million'')"
  "format_large_number (PyInt 1600) = Inr (rupee @ ''1600.00'')"
  "format_large_number (PyInt 1100) = Inr (rupee @ ''1100.00'')"
  "format_large_number (PyStr ''N/A'') = Inr ''N/A''"
  by (simp_all add: formatter_eval)

lemma example_dividend:
  "dividend_field (PyFloat (Finite (6744590801950055 / 288230376151711744))) = Inr ''2.34%''"
  by (simp add: dividend_field_def formatter_eval)

text \<open>
  The stages in any environment that gives the example answers: the hypotheses say
  which answers a stage reads.
\<close>

lemma quarterly_financials_of_example:
  "yf_quarterly_financials env ticker w = (Inr example_statement, w') \<Longrightarrow>
     get_quarterly_financials env ticker w = (Inr example_rows, w')"
  by (simp add: get_quarterly_financials_def io_defs example_select_rows)

lemma current_price_of_example:
  "yf_history env ticker ''1d'' = io_return example_history \<Longrightarrow>
     current_price env ticker w = (Inr (PyFloat (Finite (231 / 2))), w)"
  by (simp add: current_price_def io_defs example_history_def)

lemma stock_info_of_example:
  assumes "yf_info env ticker w = (Inr example_info, w1)"
    "current_price env ticker w1 = (Inr (PyFloat (Finite (231 / 2))), w2)"
    "get_quarterly_financials env ticker w2 = (Inr example_rows, w3)"
  shows "get_stock_info env ticker w = (Inr (example_dict ticker), w3)"
  by (simp add: get_stock_info_def assms io_defs stock_info_dict_def example_info_get
      example_formats example_dividend index0_def example_dict_def example_rows_def)

lemma example_env_simps:
  "yf_info example_env = (\<lambda>ticker. io_return example_info)"
  "yf_history example_env = (\<lambda>ticker period. io_return example_history)"
  "yf_quarterly_financials example_env = (\<lambda>ticker. io_return example_statement)"
  "quarterly_mean example_env = example_quarterly_mean"
  "plt example_env = (\<lambda>call. io_return ())"
  "image_open example_env = io_return 0"
  by (simp_all add: example_env_def)

lemma example_quarterly_financials:
  "get_quarterly_financials example_env ''EXAMPLE.NS'' () = (Inr example_rows, ())"
  by (rule quarterly_financials_of_example) (simp add: example_env_simps io_return_apply)

lemma example_current_price:
  "current_price example_env ''EXAMPLE.NS'' () = (Inr (PyFloat (Finite (231 / 2))), ())"
  by (rule current_price_of_example) (simp add: example_env_simps)

lemma example_stock_info:
  "get_stock_info example_env ''EXAMPLE.NS'' () = (Inr (example_dict ''EXAMPLE.NS''), ())"
proof (rule stock_info_of_example)
  show "yf_info example_env ''EXAMPLE.NS'' () = (Inr example_info, ())"
    by (simp add: example_env_simps io_return_apply)
qed (rule example_current_price example_quarterly_financials)+

lemma map_of_iloc_first3:
  "map_of (st_rows (iloc_first3 t)) label = map_option (take 3) (map_of (st_rows t) label)"
  by (simp add: iloc_first3_def map_of_map)

lemma loc_values_first3:
  "loc_values (iloc_first3 t) label =
     (case map_of (st_rows t) label of
        None \<Rightarrow> Inl (Exn KeyError (quoted label))
      | Some cells \<Rightarrow> Inr (take 3 cells))"
  by (simp add: loc_values_def map_of_iloc_first3 split: option.splits)

lemma select_rows_empty: "st_empty t \<Longrightarrow> select_rows t = Inr (sentinels, sentinels, sentinels)"
  by (simp add: select_rows_def)

lemma select_rows_present:
  assumes "\<not> st_empty t" "map_of (st_rows t) ''Net Income'' = Some np"
    "map_of (st_rows t) ''Total Revenue'' = Some sales"
    "map_of (st_rows t) ''Operating Income'' = Some oi"
  shows "select_rows t = Inr (take 3 np, take 3 sales, take 3 oi)"
  using assms by (simp add: select_rows_def loc_values_first3 exn_bind_def)

lemma select_rows_raises:
  "(\<exists>e. select_rows t = Inl e) \<longleftrightarrow>
     \<not> st_empty t \<and>
     (map_of (st_rows t) ''Net Income'' = None \<or> map_of (st_rows t) ''Total Revenue'' = None \<or>
      map_of (st_rows t) ''Operating Income'' = None)"
  by (auto simp: select_rows_def loc_values_first3 exn_bind_def split: option.splits)

lemma select_rows_key_error: "select_rows t = Inl e \<Longrightarrow> exn_class_of e = KeyError"
  by (auto simp: select_rows_def loc_values_first3 exn_bind_def split: option.splits if_splits)

lemma get_quarterly_financials_result:
  "yf_quarterly_financials env ticker w = (Inr t, w') \<Longrightarrow>
     get_quarterly_financials env ticker w = (select_rows t, w')"
  by (simp add: get_quarterly_financials_def io_defs)

text \<open>
  C5. When the provider answers with its quarterly statement table:
  on an empty table \<open>get_quarterly_financials\<close> returns three sequences of three
  \<open>"N/A"\<close> each; on a non-empty table that has the rows ``Net Income'', ``Total Revenue''
  and ``Operating Income'' it returns their values in the first three columns; and it
  raises exactly when the table is non-empty and one of the three rows is absent (a
  \<open>KeyError\<close>).
\<close>

theorem get_quarterly_financials_cases:
  assumes "yf_quarterly_financials env ticker w = (Inr t, w')"
  shows "(st_empty t \<longrightarrow>
            get_quarterly_financials env ticker w =
              (Inr ([PyStr ''N/A'', PyStr ''N/A'', PyStr ''N/A''],
                    [PyStr ''N/A'', PyStr ''N/A'', PyStr ''N/A''],
                    [PyStr ''N/A'', PyStr ''N/A'', PyStr ''N/A'']), w')) \<and>
         (\<not> st_empty t \<and> map_of (st_rows t) ''Net Income'' = Some np \<and>
            map_of (st_rows t) ''Total Revenue'' = Some sales \<and>
            map_of (st_rows t) ''Operating Income'' = Some oi \<longrightarrow>
            get_quarterly_financials env ticker w =
              (Inr (take 3 np, take 3 sales, take 3 oi), w')) \<and>
         ((\<exists>e. get_quarterly_financials env ticker w = (Inl e, w')) \<longleftrightarrow>
            \<not> st_empty t \<and>
            (map_of (st_rows t) ''Net Income'' = None \<or>
             map_of (st_rows t) ''Total Revenue'' = None \<or>
             map_of (st_rows t) ''Operating Income'' = None)) \<and>
         (\<forall>e. get_quarterly_financials env ticker w = (Inl e, w') \<longrightarrow>
            exn_class_of e = KeyError)"
proof -
  have r: "get_quarterly_financials env ticker w = (select_rows t, w')"
    using assms by (rule get_quarterly_financials_result)
  have "st_empty t \<longrightarrow> select_rows t = Inr (sentinels, sentinels, sentinels)"
    by (simp add: select_rows_empty)
  moreover have "\<not> st_empty t \<and> map_of (st_rows t) ''Net Income'' = Some np \<and>
      map_of (st_rows t) ''Total Revenue'' = Some sales \<and>
      map_of (st_rows t) ''Operating Income'' = Some oi \<longrightarrow>
      select_rows t = Inr (take 3 np, take 3 sales, take 3 oi)"
    by (simp add: select_rows_present)
  moreover note select_rows_raises [of t] select_rows_key_error [of t]
  ultimately show ?thesis
    unfolding r sentinels_def by auto
qed

theorem get_quarterly_financials_cases_witness:
  "get_quarterly_financials example_env ''EXAMPLE.NS'' () =
     (Inr ([PyFloat (Finite 150000000), PyFloat (Finite (- 5000000)), PyFloat (Finite 2500000)],
           [PyFloat (Finite 2300000000), PyFloat (Finite 2200000000),
            PyFloat (Finite 2100000000)],
           [PyFloat (Finite 400000000), PyFloat (Finite 300000000),
            PyFloat (Finite 200000000)]), ()) \<and>
   get_quarterly_financials
     (example_env\<lparr>yf_quarterly_financials :=
        \<lambda>ticker. io_return \<lparr>st_columns = [], st_rows = []\<rparr>\<rparr>) ''EXAMPLE.NS'' () =
     (Inr ([PyStr ''N/A'', PyStr ''N/A'', PyStr ''N/A''],
           [PyStr ''N/A'', PyStr ''N/A'', PyStr ''N/A''],
           [PyStr ''N/A'', PyStr ''N/A'', PyStr ''N/A'']), ()) \<and>
   (\<exists>e. get_quarterly_financials
     (example_env\<lparr>yf_quarterly_financials :=
        \<lambda>ticker. io_return \<lparr>st_columns = [''2024-06-30''],
                               st_rows = [(''Net Income'', [PyFloat (Finite 1)])]\<rparr>\<rparr>)
     ''EXAMPLE.NS'' () = (Inl e, ()) \<and> exn_class_of e = KeyError)"
proof -
  let ?empty = "\<lparr>st_columns = [], st_rows = []\<rparr>"
  let ?partial = "\<lparr>st_columns = [''2024-06-30''],
                    st_rows = [(''Net Income'', [PyFloat (Finite 1)])]\<rparr>"
  have a: "yf_quarterly_financials example_env ''EXAMPLE.NS'' () = (Inr example_statement, ())"
    by (simp add: example_env_def io_return_apply)
  have b: "yf_quarterly_financials
      (example_env\<lparr>yf_quarterly_financials := \<lambda>ticker. io_return ?empty\<rparr>)
      ''EXAMPLE.NS'' () = (Inr ?empty, ())"
    by (simp add: io_return_apply)
  have c: "yf_quarterly_financials
      (example_env\<lparr>yf_quarterly_financials := \<lambda>ticker. io_return ?partial\<rparr>)
      ''EXAMPLE.NS'' () = (Inr ?partial, ())"
    by (simp add: io_return_apply)
  show ?thesis
    using get_quarterly_financials_cases [OF a,
        of "[PyFloat (Finite 150000000), PyFloat (Finite (- 5000000)),
             PyFloat (Finite 2500000), PyFloat NaN]"
           "[PyFloat (Finite 2300000000), PyFloat (Finite 2200000000),
             PyFloat (Finite 2100000000), PyFloat (Finite 2000000000)]"
           "[PyFloat (Finite 400000000), PyFloat (Finite 300000000),
             PyFloat (Finite 200000000), PyFloat (Finite 100000000)]"]
      get_quarterly_financials_cases [OF b]
      get_quarterly_financials_cases [OF c]
    by (auto simp: st_empty_def example_statement_def)
qed

text \<open>
  C9. When no file is at the path \<open>nse_stocks.csv\<close>, \<open>load_stocks\<close> returns the empty
  list and raises nothing.
\<close>

theorem load_stocks_missing_file:
  "fs ''nse_stocks.csv'' = None \<Longrightarrow> load_stocks fs parse = Inr []"
  by (simp add: load_stocks_def read_csv_def exn_bind_def)

theorem load_stocks_missing_file_witness:
  "(Map.empty :: string \<rightharpoonup> string) ''nse_stocks.csv'' = None \<and>
   load_stocks (Map.empty :: string \<rightharpoonup> string) (\<lambda>content. Inr []) = Inr []"
  using load_stocks_missing_file [of "Map.empty :: string \<rightharpoonup> string" "\<lambda>content. Inr []"]
  by simp

lemma stock_info_dict_keys:
  "stock_info_dict info ticker price np sales oi = Inr d \<Longrightarrow> map fst d = stock_info_keys"
  by (auto simp: stock_info_dict_def exn_bind_def stock_info_keys_def split: sum.splits)

lemma io_bind_Inr_elim:
  assumes "io_bind m f w = (Inr y, w')"
  obtains x w1 where "m w = (Inr x, w1)" "f x w1 = (Inr y, w')"
  using assms by (auto simp: io_bind_def split: prod.splits sum.splits)

text \<open>
  C10. Whenever \<open>get_stock_info\<close> returns, the mapping it returns has exactly the 16
  fixed keys, in the order of the source, whatever fields the provider left out.
\<close>

theorem get_stock_info_keys:
  assumes "get_stock_info env ticker w = (Inr d, w')"
  shows "map fst d =
           [''Company Name'', ''Ticker'', ''Current Price'', ''Market Cap'', ''PE Ratio'',
            ''Dividend Yield'', ''EPS'', ''Revenue'', ''Net Profit (Last Quarter)'',
            ''Sales (Last Quarter)'', ''Operating Income (Last Quarter)'', ''Beta'',
            ''52-Week High'', ''52-Week Low'', ''Sector'', ''Recommendation''] \<and>
         distinct (map fst d) \<and> length d = 16"
proof -
  from assms obtain info w1 where
    "io_bind (current_price env ticker) (\<lambda>price.
       io_bind (get_quarterly_financials env ticker) (\<lambda>(net_profit, sales, operating_income).
       io_lift (stock_info_dict info ticker price net_profit sales operating_income)))
       w1 = (Inr d, w')"
    unfolding get_stock_info_def by (rule io_bind_Inr_elim)
  then obtain price w2 where
    "io_bind (get_quarterly_financials env ticker) (\<lambda>(net_profit, sales, operating_income).
       io_lift (stock_info_dict info ticker price net_profit sales operating_income))
       w2 = (Inr d, w')"
    by (rule io_bind_Inr_elim)
  then obtain q w3 where
    "(\<lambda>(net_profit, sales, operating_income).
       io_lift (stock_info_dict info ticker price net_profit sales operating_income)) q w3
       = (Inr d, w')"
    by (rule io_bind_Inr_elim)
  then obtain np sales oi where "stock_info_dict info ticker price np sales oi = Inr d"
    by (cases q) (auto simp: io_lift_apply)
  then have keys: "map fst d = stock_info_keys"
    by (rule stock_info_dict_keys)
  have keys': "map fst d =
           [''Company Name'', ''Ticker'', ''Current Price'', ''Market Cap'', ''PE Ratio'',
            ''Dividend Yield'', ''EPS'', ''Revenue'', ''Net Profit (Last Quarter)'',
            ''Sales (Last Quarter)'', ''Operating Income (Last Quarter)'', ''Beta'',
            ''52-Week High'', ''52-Week Low'', ''Sector'', ''Recommendation'']"
    using keys by (simp add: stock_info_keys_def)
  have "length (map fst d) = 16"
    by (subst keys') simp
  then have "length d = 16"
    by simp
  moreover have "distinct (map fst d)"
    by (subst keys') simp
  ultimately show ?thesis
    using keys' by blast
qed

theorem get_stock_info_keys_witness:
  "\<exists>d. get_stock_info example_env ''EXAMPLE.NS'' () = (Inr d, ()) \<and>
       map fst d = stock_info_keys \<and> distinct (map fst d) \<and> length d = 16"
  using get_stock_info_keys [OF example_stock_info] example_stock_info
  by (simp add: stock_info_keys_def)

lemma io_bind_raises:
  assumes "\<And>x w1. \<exists>e w'. f x w1 = (Inl e, w')"
  shows "\<exists>e w'. io_bind m f w = (Inl e, w')"
proof (cases "m w")
  case (Pair r w1)
  show ?thesis
  proof (cases r)
    case (Inl e)
    then show ?thesis using Pair by (simp add: io_bind_apply)
  next
    case (Inr x)
    then show ?thesis using Pair assms [of x w1] by (simp add: io_bind_apply)
  qed
qed

lemma dividend_field_sentinel:
  "dividend_field (PyStr ''N/A'') =
     Inl (Exn ValueError (unknown_format_code ''%'' ''str''))"
  by (simp add: dividend_field_def format_2pct_def format_refused_def)

lemma stock_info_dict_no_dividend:
  assumes "info ''dividendYield'' = None"
  shows "\<exists>e. stock_info_dict info ticker price np sales oi = Inl e"
proof -
  have "dividend_field (info_get info ''dividendYield'') =
      Inl (Exn ValueError (unknown_format_code ''%'' ''str''))"
    using assms by (simp add: info_get_def dividend_field_sentinel)
  then show ?thesis
    by (cases "format_large_number price"; cases "format_large_number (info_get info ''marketCap'')")
      (simp_all add: stock_info_dict_def exn_bind_def)
qed

text \<open>
  C2. The Dividend Yield field of \<open>get_stock_info\<close>: a float yield that is not zero is
  rendered by the format \<open>.2%\<close>, and \<open>0.0234\<close> gives \<open>"2.34%"\<close>. The sentinel \<open>"N/A"\<close>
  that stands for a missing yield is a non-empty string, so it is formatted too: the
  format raises \<open>ValueError\<close>, and \<open>get_stock_info\<close> raises whenever the provider's
  profile has no dividend yield.
\<close>

theorem dividend_yield_field:
  "dividend_field (PyFloat (Finite (6744590801950055 / 288230376151711744))) = Inr ''2.34%'' \<and>
   (q \<noteq> 0 \<longrightarrow>
      dividend_field (PyFloat (Finite q)) = Inr (fmt_2f (float_times_100 (Finite q)) @ ''%'')) \<and>
   dividend_field (PyStr ''N/A'') =
     Inl (Exn ValueError (unknown_format_code ''%'' ''str'')) \<and>
   (yf_info env ticker w = (Inr info, w1) \<and> info ''dividendYield'' = None \<longrightarrow>
      (\<exists>e w'. get_stock_info env ticker w = (Inl e, w')))"
proof -
  have a: "dividend_field (PyFloat (Finite (6744590801950055 / 288230376151711744))) =
      Inr ''2.34%''"
    by (simp add: dividend_field_def formatter_eval)
  have b: "q \<noteq> 0 \<longrightarrow>
      dividend_field (PyFloat (Finite q)) = Inr (fmt_2f (float_times_100 (Finite q)) @ ''%'')"
    by (simp add: dividend_field_def format_2pct_def)
  have c: "\<exists>e w'. get_stock_info env ticker w = (Inl e, w')"
    if info: "yf_info env ticker w = (Inr info, w1)" and none: "info ''dividendYield'' = None"
  proof -
    have "\<exists>e w'. io_lift (stock_info_dict info ticker price np sales oi) w2 = (Inl e, w')"
      for price np sales oi and w2 :: 'a
      using none stock_info_dict_no_dividend [of info ticker price np sales oi]
      by (auto simp: io_lift_apply)
    then have "\<exists>e w'. io_bind (current_price env ticker) (\<lambda>price.
       io_bind (get_quarterly_financials env ticker) (\<lambda>(net_profit, sales, operating_income).
       io_lift (stock_info_dict info ticker price net_profit sales operating_income)))
       w1 = (Inl e, w')"
      by (intro io_bind_raises) (auto simp: split_def)
    then show ?thesis
      using info by (simp add: get_stock_info_def io_bind_apply)
  qed
  show ?thesis
    using a b c dividend_field_sentinel by blast
qed

theorem dividend_yield_field_witness:
  "get_stock_info
     (example_env\<lparr>yf_info := \<lambda>ticker. io_return (example_info(''dividendYield'' := None))\<rparr>)
     ''EXAMPLE.NS'' () =
   (Inl (Exn ValueError (unknown_format_code ''%'' ''str'')), ()) \<and>
   dividend_field (PyFloat (Finite (1 / 4))) = Inr ''25.00%''"
proof -
  let ?info = "example_info(''dividendYield'' := None)"
  let ?env = "example_env\<lparr>yf_info := \<lambda>ticker. io_return ?info\<rparr>"
  have y: "yf_info ?env ''EXAMPLE.NS'' () = (Inr ?info, ())"
    by (simp add: io_return_apply)
  have n: "?info ''dividendYield'' = None"
    by simp
  have p: "current_price ?env ''EXAMPLE.NS'' () = (Inr (PyFloat (Finite (231 / 2))), ())"
    by (rule current_price_of_example) (simp add: example_env_simps)
  have g: "get_quarterly_financials ?env ''EXAMPLE.NS'' () = (Inr example_rows, ())"
    by (rule quarterly_financials_of_example) (simp add: example_env_simps io_return_apply)
  have i: "info_get ?info ''marketCap'' = PyInt 2500000000000"
    "info_get ?info ''dividendYield'' = PyStr ''N/A''"
    by (simp_all add: info_get_def example_info_def)
  have e: "get_stock_info ?env ''EXAMPLE.NS'' () =
      (Inl (Exn ValueError (unknown_format_code ''%'' ''str'')), ())"
    by (simp add: get_stock_info_def example_env_simps p g example_rows_def io_defs
        stock_info_dict_def i example_formats dividend_field_sentinel)
  have r: "fmt_2f (float_times_100 (Finite (1 / 4))) = ''25.00''"
    by (simp add: formatter_eval)
  show ?thesis
    using dividend_yield_field [of "1 / 4" ?env "''EXAMPLE.NS''" "()" ?info "()"] y n e r
    by simp
qed

section \<open>The Request Handler\<close>

lemma io_bind_raises_left:
  assumes "\<exists>e w'. m w = (Inl e, w')"
  shows "\<exists>e w'. io_bind m f w = (Inl e, w')"
  using assms by (auto simp: io_bind_apply)

lemma annotate_str_raises: "\<exists>e w'. annotate env ax i (PyStr s # vs) w = (Inl e, w')"
  by (simp add: io_bind_apply io_lift_apply format_2f_def format_refused_def)

lemma bar_panel_str_raises:
  "\<exists>e w'. bar_panel env ax (PyStr s # vs) colour title w = (Inl e, w')"
  unfolding bar_panel_def
  by (intro io_bind_raises annotate_str_raises)

lemma plot_visualizations_str_raises:
  "\<exists>e w'. plot_visualizations env ticker (PyStr s # vs) sales quarterly_high_low w = (Inl e, w')"
  unfolding plot_visualizations_def
  by (intro io_bind_raises io_bind_raises_left bar_panel_str_raises)

lemma get_quarterly_financials_empty:
  assumes "\<And>w t w'. yf_quarterly_financials env ticker w = (Inr t, w') \<Longrightarrow> st_empty t"
  shows "(\<exists>e w'. get_quarterly_financials env ticker w = (Inl e, w')) \<or>
         (\<exists>w'. get_quarterly_financials env ticker w = (Inr (sentinels, sentinels, sentinels), w'))"
proof (cases "yf_quarterly_financials env ticker w")
  case (Pair r w')
  show ?thesis
  proof (cases r)
    case (Inl e)
    then show ?thesis
      using Pair by (simp add: get_quarterly_financials_def io_defs)
  next
    case (Inr t)
    then have "st_empty t"
      using Pair assms by simp
    then show ?thesis
      using Pair Inr by (simp add: get_quarterly_financials_result select_rows_empty)
  qed
qed

lemma main_try_empty_statement_raises:
  assumes "\<And>w t w'. yf_quarterly_financials env ticker w = (Inr t, w') \<Longrightarrow> st_empty t"
  shows "\<exists>e w'. main_try env ticker w = (Inl e, w')"
  unfolding main_try_def
proof (rule io_bind_raises)
  fix stock_info and w1 :: 'a
  show "\<exists>e w'. io_bind (get_quarterly_financials env ticker) (\<lambda>(net_profit, sales, _).
        io_bind (calculate_quarterly_averages env ticker) (\<lambda>quarterly_high_low.
        io_bind (plot_visualizations env ticker net_profit sales quarterly_high_low)
          (\<lambda>visual_image.
        io_return (stock_info_md env stock_info, visual_image)))) w1 = (Inl e, w')"
  proof (rule disjE [OF get_quarterly_financials_empty [of env ticker w1]])
    show "st_empty t" if "yf_quarterly_financials env ticker w0 = (Inr t, w0')" for w0 t w0'
      using that by (rule assms)
  next
    assume "\<exists>e w'. get_quarterly_financials env ticker w1 = (Inl e, w')"
    then show ?thesis
      by (rule io_bind_raises_left)
  next
    assume "\<exists>w'. get_quarterly_financials env ticker w1 =
        (Inr (sentinels, sentinels, sentinels), w')"
    then obtain w2 where
      q: "get_quarterly_financials env ticker w1 = (Inr (sentinels, sentinels, sentinels), w2)"
      by blast
    have "\<exists>e w'. io_bind (calculate_quarterly_averages env ticker) (\<lambda>quarterly_high_low.
        io_bind (plot_visualizations env ticker sentinels sentinels quarterly_high_low)
          (\<lambda>visual_image.
        io_return (stock_info_md env stock_info, visual_image))) w2 = (Inl e, w')"
      unfolding sentinels_def
      by (intro io_bind_raises io_bind_raises_left plot_visualizations_str_raises)
    then show ?thesis
      using q by (simp add: io_bind_apply)
  qed
qed

lemma plot_visualizations_str_value_error:
  assumes "\<forall>call w0. \<exists>w1. plt env call w0 = (Inr (), w1)"
  shows "\<exists>w'. plot_visualizations env ticker (PyStr x # vs) sales quarterly_high_low w =
           (Inl (Exn ValueError (unknown_format_code ''f'' ''str'')), w')"
proof -
  obtain w1 where a: "plt env (Subplots 3 1) w = (Inr (), w1)"
    using assms by blast
  obtain w2 where b: "plt env (Bar 0 [''Q1'', ''Q2'', ''Q3''] (PyStr x # vs) ''blue'') w1 =
      (Inr (), w2)"
    using assms by blast
  obtain w3 where c: "plt env (SetTitle 0 (ticker @ '' - Net Profit (Last 3 Quarters)'')) w2 =
      (Inr (), w3)"
    using assms by blast
  obtain w4 where d: "plt env (SetYLabel 0 rupee) w3 = (Inr (), w4)"
    using assms by blast
  show ?thesis
    using a b c d
    by (simp add: plot_visualizations_def bar_panel_def io_defs format_2f_def
        format_refused_def)
qed

lemma main_raised:
  "main_try env (s @ ''.NS'') w = (Inl e, w') \<Longrightarrow>
     main env s w =
       (if is_exception e
        then Inr (''Error fetching data for '' @ s @ ''.NS: '' @ exn_str e, None)
        else Inl e, w')"
  by (simp add: main_def except_Exception_def error_text_def)

lemma main_returned:
  "main_try env (s @ ''.NS'') w = (Inr (md, img), w') \<Longrightarrow>
     main env s w = (Inr (md, Some img), w')"
  by (simp add: main_def)

text \<open>
  C3. When every quarterly statement table the provider returns is empty, \<open>main\<close> does
  not return the text block. The body of the \<open>try\<close> raises: the net-profit sequence is
  three \<open>"N/A"\<close> strings, and the chart annotation formats the first of them with \<open>.2f\<close>,
  which raises \<open>ValueError\<close>, unless an earlier call has raised already. What was raised
  is caught, and \<open>main\<close> returns the error string and no image (an exception that is not
  an instance of \<open>Exception\<close>, which only the provider or a library raises, leaves
  \<open>main\<close> instead). When the stages before the chart return and the plotting library
  raises nothing, the error string is that of the \<open>ValueError\<close>.
\<close>

theorem main_empty_statement_table:
  assumes "\<And>w t w'. yf_quarterly_financials env (s @ ''.NS'') w = (Inr t, w') \<Longrightarrow> st_empty t"
  shows "(\<exists>e w'. main env s w =
            (if is_exception e
             then Inr (''Error fetching data for '' @ s @ ''.NS: '' @ exn_str e, None)
             else Inl e, w')) \<and>
         ((\<forall>call w0. \<exists>w1. plt env call w0 = (Inr (), w1)) \<and>
          get_stock_info env (s @ ''.NS'') w = (Inr stock_info, wa) \<and>
          get_quarterly_financials env (s @ ''.NS'') wa = (Inr rows, wb) \<and>
          calculate_quarterly_averages env (s @ ''.NS'') wb = (Inr quarterly_high_low, wc) \<longrightarrow>
          (\<exists>w'. main env s w =
             (Inr (''Error fetching data for '' @ s @ ''.NS: '' @
                     unknown_format_code ''f'' ''str'', None), w')))"
proof (intro conjI impI)
  have "\<exists>e w'. main_try env (s @ ''.NS'') w = (Inl e, w')"
    by (rule main_try_empty_statement_raises) (rule assms)
  then obtain e w' where "main_try env (s @ ''.NS'') w = (Inl e, w')"
    by blast
  then have "main env s w =
      (if is_exception e
       then Inr (''Error fetching data for '' @ s @ ''.NS: '' @ exn_str e, None)
       else Inl e, w')"
    by (rule main_raised)
  then show "\<exists>e w'. main env s w =
      (if is_exception e
       then Inr (''Error fetching data for '' @ s @ ''.NS: '' @ exn_str e, None)
       else Inl e, w')"
    by blast
next
  let ?t = "s @ ''.NS''"
  let ?e = "Exn ValueError (unknown_format_code ''f'' ''str'')"
  assume a: "(\<forall>call w0. \<exists>w1. plt env call w0 = (Inr (), w1)) \<and>
          get_stock_info env ?t w = (Inr stock_info, wa) \<and>
          get_quarterly_financials env ?t wa = (Inr rows, wb) \<and>
          calculate_quarterly_averages env ?t wb = (Inr quarterly_high_low, wc)"
  have "(\<exists>e w'. get_quarterly_financials env ?t wa = (Inl e, w')) \<or>
      (\<exists>w'. get_quarterly_financials env ?t wa = (Inr (sentinels, sentinels, sentinels), w'))"
    by (rule get_quarterly_financials_empty) (rule assms)
  then have rows: "rows = (sentinels, sentinels, sentinels)"
    using a by auto
  obtain w' where p: "plot_visualizations env ?t (PyStr ''N/A'' # [PyStr ''N/A'', PyStr ''N/A''])
      sentinels quarterly_high_low wc = (Inl ?e, w')"
    using plot_visualizations_str_value_error [of env ?t "''N/A''" _ sentinels
        quarterly_high_low wc] a
    by blast
  have "main_try env ?t w = (Inl ?e, w')"
    using a p by (simp add: main_try_def io_bind_apply rows sentinels_def)
  then have "main env s w =
      (Inr (''Error fetching data for '' @ s @ ''.NS: '' @ unknown_format_code ''f'' ''str'',
            None), w')"
    using main_raised [of env s w ?e w'] by simp
  then show "\<exists>w'. main env s w =
      (Inr (''Error fetching data for '' @ s @ ''.NS: '' @ unknown_format_code ''f'' ''str'',
            None), w')"
    by blast
qed

lemma example_empty_stock_info:
  "get_stock_info
     (example_env\<lparr>yf_quarterly_financials :=
        \<lambda>ticker. io_return \<lparr>st_columns = [], st_rows = []\<rparr>\<rparr>) ''EXAMPLE.NS'' () =
  (Inr [(''Company Name'', PyStr ''Example Industries Limited''),
        (''Ticker'', PyStr ''EXAMPLE.NS''),
        (''Current Price'', PyStr (rupee @ ''115.50'')),
        (''Market Cap'', PyStr (rupee @ ''2.50 Trillion'')),
        (''PE Ratio'', PyInt 21),
        (''Dividend Yield'', PyStr ''2.34%''),
        (''EPS'', PyStr (rupee @ ''48.50'')),
        (''Revenue'', PyStr (rupee @ ''9.00 Billion'')),
        (''Net Profit (Last Quarter)'', PyStr ''N/A''),
        (''Sales (Last Quarter)'', PyStr ''N/A''),
        (''Operating Income (Last Quarter)'', PyStr ''N/A''),
        (''Beta'', PyInt 1),
        (''52-Week High'', PyStr (rupee @ ''1600.00'')),
        (''52-Week Low'', PyStr (rupee @ ''1100.00'')),
        (''Sector'', PyStr ''Energy''),
        (''Recommendation'', PyStr ''buy'')], ())"
proof -
  let ?env = "example_env\<lparr>yf_quarterly_financials :=
        \<lambda>ticker. io_return \<lparr>st_columns = [], st_rows = []\<rparr>\<rparr>"
  have p: "current_price ?env ''EXAMPLE.NS'' () = (Inr (PyFloat (Finite (231 / 2))), ())"
    by (rule current_price_of_example) (simp add: example_env_simps)
  have q: "get_quarterly_financials ?env ''EXAMPLE.NS'' () =
      (Inr (sentinels, sentinels, sentinels), ())"
    by (simp add: get_quarterly_financials_def select_rows_def st_empty_def io_defs)
  show ?thesis
    by (simp add: get_stock_info_def example_env_simps p q io_defs stock_info_dict_def
        example_info_get example_formats example_dividend index0_def sentinels_def)
qed

lemma averages_of_example:
  assumes "yf_history env ticker ''1y'' w = (Inr example_history, w')"
    "quarterly_mean env = example_quarterly_mean"
  shows "calculate_quarterly_averages env ticker w = (Inr example_averages, w')"
  using assms
  by (simp add: calculate_quarterly_averages_def io_defs example_quarterly_mean_def
      example_history_def)

theorem main_empty_statement_table_witness:
  "main (example_env\<lparr>yf_quarterly_financials :=
        \<lambda>ticker. io_return \<lparr>st_columns = [], st_rows = []\<rparr>\<rparr>) ''EXAMPLE'' () =
     (Inr (''Error fetching data for EXAMPLE.NS: '' @ unknown_format_code ''f'' ''str'', None),
      ())"
proof -
  let ?env = "example_env\<lparr>yf_quarterly_financials :=
        \<lambda>ticker. io_return \<lparr>st_columns = [], st_rows = []\<rparr>\<rparr>"
  let ?d = "[(''Company Name'', PyStr ''Example Industries Limited''),
        (''Ticker'', PyStr ''EXAMPLE.NS''),
        (''Current Price'', PyStr (rupee @ ''115.50'')),
        (''Market Cap'', PyStr (rupee @ ''2.50 Trillion'')),
        (''PE Ratio'', PyInt 21),
        (''Dividend Yield'', PyStr ''2.34%''),
        (''EPS'', PyStr (rupee @ ''48.50'')),
        (''Revenue'', PyStr (rupee @ ''9.00 Billion'')),
        (''Net Profit (Last Quarter)'', PyStr ''N/A''),
        (''Sales (Last Quarter)'', PyStr ''N/A''),
        (''Operating Income (Last Quarter)'', PyStr ''N/A''),
        (''Beta'', PyInt 1),
        (''52-Week High'', PyStr (rupee @ ''1600.00'')),
        (''52-Week Low'', PyStr (rupee @ ''1100.00'')),
        (''Sector'', PyStr ''Energy''),
        (''Recommendation'', PyStr ''buy'')]"
  have h: "st_empty t" if "yf_quarterly_financials ?env (''EXAMPLE'' @ ''.NS'') w = (Inr t, w')"
    for w t w'
    using that by (auto simp: io_return_apply st_empty_def)
  have p: "\<forall>call w0. \<exists>w1. plt ?env call w0 = (Inr (), w1)"
    by (simp add: example_env_simps io_return_apply)
  have s: "get_stock_info ?env (''EXAMPLE'' @ ''.NS'') () = (Inr ?d, ())"
    using example_empty_stock_info by simp
  have q: "get_quarterly_financials ?env (''EXAMPLE'' @ ''.NS'') () =
      (Inr (sentinels, sentinels, sentinels), ())"
    by (simp add: get_quarterly_financials_def select_rows_def st_empty_def io_defs)
  have c: "calculate_quarterly_averages ?env (''EXAMPLE'' @ ''.NS'') () =
      (Inr example_averages, ())"
    by (rule averages_of_example) (simp_all add: example_env_simps io_return_apply)
  have "\<exists>w'. main ?env ''EXAMPLE'' () =
     (Inr (''Error fetching data for '' @ ''EXAMPLE'' @ ''.NS: '' @
             unknown_format_code ''f'' ''str'', None), w')"
    using main_empty_statement_table [of ?env "''EXAMPLE''" "()" ?d "()"
        "(sentinels, sentinels, sentinels)" "()" example_averages "()"] h p s q c
    by blast
  then show ?thesis
    by simp
qed

lemma get_stock_info_info_raised:
  "yf_info env ticker w = (Inl e, w') \<Longrightarrow> get_stock_info env ticker w = (Inl e, w')"
  by (simp add: get_stock_info_def io_bind_apply)

lemma annotate_cong: "plt env' = plt env \<Longrightarrow> annotate env' ax i vs = annotate env ax i vs"
  by (induction vs arbitrary: i) simp_all

lemma py_str_cong:
  assumes "float_repr env' = float_repr env"
  shows "py_str env' = py_str env"
proof (rule ext)
  fix v
  show "py_str env' v = py_str env v"
    by (cases v) (simp_all add: py_str_def assms)
qed

lemma stock_info_md_cong:
  assumes "float_repr env' = float_repr env"
  shows "stock_info_md env' = stock_info_md env"
proof (rule ext)
  fix d
  have "md_line env' = md_line env"
    by (rule ext) (simp add: md_line_def py_str_cong [OF assms])
  then show "stock_info_md env' d = stock_info_md env d"
    by (simp add: stock_info_md_def)
qed

lemma bar_panel_cong:
  assumes "plt env' = plt env"
  shows "bar_panel env' = bar_panel env"
  by (intro ext) (simp add: bar_panel_def assms annotate_cong [OF assms])

lemma line_panel_cong:
  assumes "plt env' = plt env"
  shows "line_panel env' = line_panel env"
  by (intro ext) (simp add: line_panel_def assms)

lemma plot_visualizations_cong:
  assumes "plt env' = plt env" "image_open env' = image_open env"
  shows "plot_visualizations env' = plot_visualizations env"
  by (intro ext)
    (simp add: plot_visualizations_def assms bar_panel_cong [OF assms(1)]
      line_panel_cong [OF assms(1)])

lemma get_quarterly_financials_cong:
  assumes "yf_quarterly_financials env' ticker = yf_quarterly_financials env ticker"
  shows "get_quarterly_financials env' ticker = get_quarterly_financials env ticker"
  by (simp add: get_quarterly_financials_def assms)

lemma current_price_cong:
  assumes "yf_history env' ticker = yf_history env ticker"
  shows "current_price env' ticker = current_price env ticker"
  by (simp add: current_price_def assms cong: if_cong)

lemma get_stock_info_cong:
  assumes "yf_info env' ticker = yf_info env ticker"
    "yf_history env' ticker = yf_history env ticker"
    "yf_quarterly_financials env' ticker = yf_quarterly_financials env ticker"
  shows "get_stock_info env' ticker = get_stock_info env ticker"
  by (simp add: get_stock_info_def assms(1) current_price_cong [OF assms(2)]
      get_quarterly_financials_cong [OF assms(3)])

lemma main_try_cong:
  assumes "yf_info env' ticker = yf_info env ticker"
    "yf_history env' ticker = yf_history env ticker"
    "yf_quarterly_financials env' ticker = yf_quarterly_financials env ticker"
    "quarterly_mean env' = quarterly_mean env"
    "plt env' = plt env" "image_open env' = image_open env" "float_repr env' = float_repr env"
  shows "main_try env' ticker = main_try env ticker"
  by (simp add: main_try_def get_stock_info_cong [OF assms(1,2,3)]
      get_quarterly_financials_cong [OF assms(3)] calculate_quarterly_averages_def assms(2,4)
      plot_visualizations_cong [OF assms(5,6)] stock_info_md_cong [OF assms(7)])

text \<open>
  C4, as amended. \<open>main\<close> qualifies the symbol \<open>s\<close> as \<open>ticker = s + ".NS"\<close> and runs its
  four stages on \<open>ticker\<close>. Whichever stage raises \<open>e\<close> (the profile request inside the
  first among them): when \<open>e\<close> is an instance of \<open>Exception\<close>, \<open>main\<close> returns exactly the
  text \<open>"Error fetching data for " + ticker + ": " + str(e)\<close> with no image; when it is
  not (\<open>SystemExit\<close>, \<open>KeyboardInterrupt\<close>, \<open>GeneratorExit\<close>), it is not caught and
  \<open>main\<close> raises \<open>e\<close>. When every stage returns, \<open>main\<close> returns the text block with the
  image. Nothing else happens: an image comes with the text block and the error text
  comes without an image. The result depends on the provider only through its answers
  for \<open>ticker\<close>.
\<close>

theorem main_error_path:
  assumes "ticker = s @ ''.NS''"
  shows
    "(get_stock_info env ticker w = (Inl e, w') \<or>
      yf_info env ticker w = (Inl e, w') \<or>
      get_stock_info env ticker w = (Inr stock_info, w1) \<and>
        get_quarterly_financials env ticker w1 = (Inl e, w') \<or>
      get_stock_info env ticker w = (Inr stock_info, w1) \<and>
        get_quarterly_financials env ticker w1 = (Inr (net_profit, sales, oi), w2) \<and>
        calculate_quarterly_averages env ticker w2 = (Inl e, w') \<or>
      get_stock_info env ticker w = (Inr stock_info, w1) \<and>
        get_quarterly_financials env ticker w1 = (Inr (net_profit, sales, oi), w2) \<and>
        calculate_quarterly_averages env ticker w2 = (Inr quarterly_high_low, w3) \<and>
        plot_visualizations env ticker net_profit sales quarterly_high_low w3 = (Inl e, w') \<longrightarrow>
        main env s w =
          (if is_exception e
           then Inr (''Error fetching data for '' @ ticker @ '': '' @ exn_str e, None)
           else Inl e, w')) \<and>
     (get_stock_info env ticker w = (Inr stock_info, w1) \<and>
      get_quarterly_financials env ticker w1 = (Inr (net_profit, sales, oi), w2) \<and>
      calculate_quarterly_averages env ticker w2 = (Inr quarterly_high_low, w3) \<and>
      plot_visualizations env ticker net_profit sales quarterly_high_low w3 = (Inr img, w') \<longrightarrow>
        main env s w = (Inr (stock_info_md env stock_info, Some img), w')) \<and>
     ((\<exists>md img. fst (main env s w) = Inr (md, Some img)) \<or>
      (\<exists>x. is_exception x \<and>
           fst (main env s w) =
             Inr (''Error fetching data for '' @ ticker @ '': '' @ exn_str x, None)) \<or>
      (\<exists>x. \<not> is_exception x \<and> fst (main env s w) = Inl x)) \<and>
     (yf_info env' ticker = yf_info env ticker \<and>
      yf_history env' ticker = yf_history env ticker \<and>
      yf_quarterly_financials env' ticker = yf_quarterly_financials env ticker \<and>
      quarterly_mean env' = quarterly_mean env \<and>
      plt env' = plt env \<and> image_open env' = image_open env \<and>
      float_repr env' = float_repr env \<longrightarrow>
        main env' s = main env s)"
proof -
  note t = assms
  let ?r = "(if is_exception e
           then Inr (''Error fetching data for '' @ ticker @ '': '' @ exn_str e, None)
           else Inl e, w')"
  have c1: "get_stock_info env ticker w = (Inl e, w') \<Longrightarrow>
      main_try env ticker w = (Inl e, w')"
    by (simp add: main_try_def io_bind_apply)
  have c2: "yf_info env ticker w = (Inl e, w') \<Longrightarrow> main_try env ticker w = (Inl e, w')"
    using c1 by (simp add: get_stock_info_info_raised)
  have c3: "get_stock_info env ticker w = (Inr stock_info, w1) \<and>
      get_quarterly_financials env ticker w1 = (Inl e, w') \<Longrightarrow>
      main_try env ticker w = (Inl e, w')"
    by (simp add: main_try_def io_bind_apply)
  have c4: "get_stock_info env ticker w = (Inr stock_info, w1) \<and>
      get_quarterly_financials env ticker w1 = (Inr (net_profit, sales, oi), w2) \<and>
      calculate_quarterly_averages env ticker w2 = (Inl e, w') \<Longrightarrow>
      main_try env ticker w = (Inl e, w')"
    by (simp add: main_try_def io_bind_apply)
  have c5: "get_stock_info env ticker w = (Inr stock_info, w1) \<and>
      get_quarterly_financials env ticker w1 = (Inr (net_profit, sales, oi), w2) \<and>
      calculate_quarterly_averages env ticker w2 = (Inr quarterly_high_low, w3) \<and>
      plot_visualizations env ticker net_profit sales quarterly_high_low w3 = (Inl e, w') \<Longrightarrow>
      main_try env ticker w = (Inl e, w')"
    by (simp add: main_try_def io_bind_apply)
  have raised: "main_try env ticker w = (Inl e, w') \<Longrightarrow> main env s w = ?r"
    using main_raised [of env s w e w'] t by simp
  have d1: "get_stock_info env ticker w = (Inl e, w') \<or>
      yf_info env ticker w = (Inl e, w') \<or>
      get_stock_info env ticker w = (Inr stock_info, w1) \<and>
        get_quarterly_financials env ticker w1 = (Inl e, w') \<or>
      get_stock_info env ticker w = (Inr stock_info, w1) \<and>
        get_quarterly_financials env ticker w1 = (Inr (net_profit, sales, oi), w2) \<and>
        calculate_quarterly_averages env ticker w2 = (Inl e, w') \<or>
      get_stock_info env ticker w = (Inr stock_info, w1) \<and>
        get_quarterly_financials env ticker w1 = (Inr (net_profit, sales, oi), w2) \<and>
        calculate_quarterly_averages env ticker w2 = (Inr quarterly_high_low, w3) \<and>
        plot_visualizations env ticker net_profit sales quarterly_high_low w3 = (Inl e, w') \<longrightarrow>
        main env s w = ?r"
    using c1 c2 c3 c4 c5 raised by blast
  have c6: "get_stock_info env ticker w = (Inr stock_info, w1) \<and>
      get_quarterly_financials env ticker w1 = (Inr (net_profit, sales, oi), w2) \<and>
      calculate_quarterly_averages env ticker w2 = (Inr quarterly_high_low, w3) \<and>
      plot_visualizations env ticker net_profit sales quarterly_high_low w3 = (Inr img, w') \<Longrightarrow>
      main_try env ticker w = (Inr (stock_info_md env stock_info, img), w')"
    by (simp add: main_try_def io_bind_apply io_return_apply)
  have d2: "get_stock_info env ticker w = (Inr stock_info, w1) \<and>
      get_quarterly_financials env ticker w1 = (Inr (net_profit, sales, oi), w2) \<and>
      calculate_quarterly_averages env ticker w2 = (Inr quarterly_high_low, w3) \<and>
      plot_visualizations env ticker net_profit sales quarterly_high_low w3 = (Inr img, w') \<longrightarrow>
        main env s w = (Inr (stock_info_md env stock_info, Some img), w')"
    using c6 main_returned [of env s w "stock_info_md env stock_info" img w'] t by blast
  have d3: "(\<exists>md img. fst (main env s w) = Inr (md, Some img)) \<or>
      (\<exists>x. is_exception x \<and>
           fst (main env s w) =
             Inr (''Error fetching data for '' @ ticker @ '': '' @ exn_str x, None)) \<or>
      (\<exists>x. \<not> is_exception x \<and> fst (main env s w) = Inl x)"
  proof (cases "main_try env ticker w")
    case (Pair r w4)
    show ?thesis
    proof (cases r)
      case (Inl x)
      then have m: "main env s w =
          (if is_exception x
           then Inr (''Error fetching data for '' @ ticker @ '': '' @ exn_str x, None)
           else Inl x, w4)"
        using Pair t main_raised [of env s w x w4] by simp
      show ?thesis
      proof (cases "is_exception x")
        case True
        then show ?thesis using m by auto
      next
        case False
        then show ?thesis using m by auto
      qed
    next
      case (Inr p)
      then show ?thesis
        using Pair t main_returned [of env s w "fst p" "snd p" w4] by auto
    qed
  qed
  have d4: "yf_info env' ticker = yf_info env ticker \<and>
      yf_history env' ticker = yf_history env ticker \<and>
      yf_quarterly_financials env' ticker = yf_quarterly_financials env ticker \<and>
      quarterly_mean env' = quarterly_mean env \<and>
      plt env' = plt env \<and> image_open env' = image_open env \<and>
      float_repr env' = float_repr env \<longrightarrow>
        main env' s = main env s"
  proof (intro impI ext)
    fix w0
    assume a: "yf_info env' ticker = yf_info env ticker \<and>
      yf_history env' ticker = yf_history env ticker \<and>
      yf_quarterly_financials env' ticker = yf_quarterly_financials env ticker \<and>
      quarterly_mean env' = quarterly_mean env \<and>
      plt env' = plt env \<and> image_open env' = image_open env \<and>
      float_repr env' = float_repr env"
    have "main_try env' ticker = main_try env ticker"
      by (rule main_try_cong) (use a in simp_all)
    then show "main env' s w0 = main env s w0"
      using t by (simp add: main_def)
  qed
  from d1 d2 d3 d4 show ?thesis
    by (intro conjI)
qed

lemma plot_of_example:
  assumes "plt env = (\<lambda>call. io_return ())" "image_open env = io_return i"
  shows "plot_visualizations env ticker (fst example_rows) (fst (snd example_rows))
           quarterly_high_low w = (Inr i, w)"
proof -
  have f: "format_2f (PyFloat (Finite 150000000)) = Inr ''150000000.00''"
    "format_2f (PyFloat (Finite (- 5000000))) = Inr ''-5000000.00''"
    "format_2f (PyFloat (Finite 2500000)) = Inr ''2500000.00''"
    "format_2f (PyFloat (Finite 2300000000)) = Inr ''2300000000.00''"
    "format_2f (PyFloat (Finite 2200000000)) = Inr ''2200000000.00''"
    "format_2f (PyFloat (Finite 2100000000)) = Inr ''2100000000.00''"
    by (simp_all add: formatter_eval)
  show ?thesis
    by (simp add: plot_visualizations_def bar_panel_def line_panel_def f io_defs assms
        example_rows_def)
qed

theorem main_error_path_witness:
  "main (example_env\<lparr>yf_info := \<lambda>ticker.
           io_lift (Inl (Exn (OtherError ''HTTPError'') ''404 Client Error: Not Found''))\<rparr>)
     ''EXAMPLE'' () =
     (Inr (''Error fetching data for EXAMPLE.NS: 404 Client Error: Not Found'', None), ()) \<and>
   main flaky_env ''EXAMPLE'' 0 =
     (Inr (''Error fetching data for EXAMPLE.NS: Connection reset by peer'', None), 2) \<and>
   main (example_env\<lparr>yf_history := \<lambda>ticker period.
           if period = ''1y'' then io_lift (Inl (Exn (OtherError ''Timeout'') ''Read timed out''))
           else io_return example_history\<rparr>)
     ''EXAMPLE'' () =
     (Inr (''Error fetching data for EXAMPLE.NS: Read timed out'', None), ()) \<and>
   main (example_env\<lparr>plt := \<lambda>call.
           if call = SaveFig
           then io_lift (Inl (Exn (OtherError ''RuntimeError'') ''backend failure''))
           else io_return ()\<rparr>)
     ''EXAMPLE'' () =
     (Inr (''Error fetching data for EXAMPLE.NS: backend failure'', None), ()) \<and>
   main (example_env\<lparr>plt := \<lambda>call.
           if call = SaveFig then io_lift (Inl (Exn SystemExit ''1'')) else io_return ()\<rparr>)
     ''EXAMPLE'' () = (Inl (Exn SystemExit ''1''), ()) \<and>
   main example_env ''EXAMPLE'' () =
     (Inr (stock_info_md example_env (example_dict ''EXAMPLE.NS''), Some 0), ()) \<and>
   main (example_env\<lparr>yf_info := \<lambda>ticker.
           if ticker = ''EXAMPLE.NS'' then io_return example_info
           else io_lift (Inl (Exn (OtherError ''HTTPError'') ''404 Client Error: Not Found''))\<rparr>)
     ''EXAMPLE'' = main example_env ''EXAMPLE''"
proof -
  let ?t = "''EXAMPLE.NS''"
  let ?d = "example_dict ?t"
  let ?np = "fst example_rows"
  let ?sales = "fst (snd example_rows)"
  let ?oi = "snd (snd example_rows)"
  let ?q = "example_averages"
  let ?http = "Exn (OtherError ''HTTPError'') ''404 Client Error: Not Found''"
  let ?reset = "Exn (OtherError ''ConnectionError'') ''Connection reset by peer''"
  let ?timeout = "Exn (OtherError ''Timeout'') ''Read timed out''"
  let ?backend = "Exn (OtherError ''RuntimeError'') ''backend failure''"
  let ?exit = "Exn SystemExit ''1''"
  let ?env1 = "example_env\<lparr>yf_info := \<lambda>ticker. io_lift (Inl ?http)\<rparr>"
  let ?env3 = "example_env\<lparr>yf_history := \<lambda>ticker period.
      if period = ''1y'' then io_lift (Inl ?timeout) else io_return example_history\<rparr>"
  let ?env4 = "example_env\<lparr>plt := \<lambda>call.
      if call = SaveFig then io_lift (Inl ?backend) else io_return ()\<rparr>"
  let ?env5 = "example_env\<lparr>plt := \<lambda>call.
      if call = SaveFig then io_lift (Inl ?exit) else io_return ()\<rparr>"
  let ?env6 = "example_env\<lparr>yf_info := \<lambda>ticker.
      if ticker = ''EXAMPLE.NS'' then io_return example_info else io_lift (Inl ?http)\<rparr>"
  have t: "?t = ''EXAMPLE'' @ ''.NS''"
    by simp
  have rows: "example_rows = (?np, ?sales, ?oi)"
    by simp
  have f: "format_2f (PyFloat (Finite 150000000)) = Inr ''150000000.00''"
    "format_2f (PyFloat (Finite (- 5000000))) = Inr ''-5000000.00''"
    "format_2f (PyFloat (Finite 2500000)) = Inr ''2500000.00''"
    "format_2f (PyFloat (Finite 2300000000)) = Inr ''2300000000.00''"
    "format_2f (PyFloat (Finite 2200000000)) = Inr ''2200000000.00''"
    "format_2f (PyFloat (Finite 2100000000)) = Inr ''2100000000.00''"
    by (simp_all add: formatter_eval)

  have "yf_info ?env1 ?t () = (Inl ?http, ())"
    by (simp add: io_lift_apply)
  then have r1: "main ?env1 ''EXAMPLE'' () =
      (Inr (''Error fetching data for EXAMPLE.NS: 404 Client Error: Not Found'', None), ())"
    using main_error_path [OF t, where env = ?env1 and w = "()" and e = ?http and w' = "()"
        and stock_info = ?d and ?w1.0 = "()" and net_profit = ?np and sales = ?sales
        and oi = ?oi and ?w2.0 = "()" and quarterly_high_low = ?q and ?w3.0 = "()"
        and img = 0 and env' = ?env1]
    by simp

  have "get_stock_info flaky_env ?t 0 = (Inr ?d, 1)"
    by (rule stock_info_of_example [where ?w1.0 = 0 and ?w2.0 = 0])
      (simp_all add: flaky_env_def io_return_apply current_price_of_example
        quarterly_financials_of_example)
  moreover have "get_quarterly_financials flaky_env ?t 1 = (Inl ?reset, 2)"
    by (simp add: get_quarterly_financials_def flaky_env_def io_defs)
  ultimately have r2: "main flaky_env ''EXAMPLE'' 0 =
      (Inr (''Error fetching data for EXAMPLE.NS: Connection reset by peer'', None), 2)"
    using main_error_path [OF t, where env = flaky_env and w = 0 and e = ?reset and w' = 2
        and stock_info = ?d and ?w1.0 = 1 and net_profit = ?np and sales = ?sales
        and oi = ?oi and ?w2.0 = 2 and quarterly_high_low = ?q and ?w3.0 = 2
        and img = 0 and env' = flaky_env]
    by simp

  have "get_stock_info ?env3 ?t () = (Inr ?d, ())"
    by (rule stock_info_of_example [where ?w1.0 = "()" and ?w2.0 = "()"])
      (simp_all add: example_env_simps io_return_apply current_price_of_example
        quarterly_financials_of_example)
  moreover have "get_quarterly_financials ?env3 ?t () = (Inr (?np, ?sales, ?oi), ())"
    by (simp add: example_env_simps io_return_apply quarterly_financials_of_example)
  moreover have "calculate_quarterly_averages ?env3 ?t () = (Inl ?timeout, ())"
    by (simp add: calculate_quarterly_averages_def io_defs)
  ultimately have r3: "main ?env3 ''EXAMPLE'' () =
      (Inr (''Error fetching data for EXAMPLE.NS: Read timed out'', None), ())"
    using main_error_path [OF t, where env = ?env3 and w = "()" and e = ?timeout and w' = "()"
        and stock_info = ?d and ?w1.0 = "()" and net_profit = ?np and sales = ?sales
        and oi = ?oi and ?w2.0 = "()" and quarterly_high_low = ?q and ?w3.0 = "()"
        and img = 0 and env' = ?env3]
    by simp

  have "get_stock_info ?env4 ?t () = (Inr ?d, ())"
    by (rule stock_info_of_example [where ?w1.0 = "()" and ?w2.0 = "()"])
      (simp_all add: example_env_simps io_return_apply current_price_of_example
        quarterly_financials_of_example)
  moreover have "get_quarterly_financials ?env4 ?t () = (Inr (?np, ?sales, ?oi), ())"
    by (simp add: example_env_simps io_return_apply quarterly_financials_of_example)
  moreover have "calculate_quarterly_averages ?env4 ?t () = (Inr ?q, ())"
    by (rule averages_of_example) (simp_all add: example_env_simps io_return_apply)
  moreover have "plot_visualizations ?env4 ?t ?np ?sales ?q () = (Inl ?backend, ())"
    by (simp add: plot_visualizations_def bar_panel_def line_panel_def f io_defs
        example_rows_def)
  ultimately have r4: "main ?env4 ''EXAMPLE'' () =
      (Inr (''Error fetching data for EXAMPLE.NS: backend failure'', None), ())"
    using main_error_path [OF t, where env = ?env4 and w = "()" and e = ?backend and w' = "()"
        and stock_info = ?d and ?w1.0 = "()" and net_profit = ?np and sales = ?sales
        and oi = ?oi and ?w2.0 = "()" and quarterly_high_low = ?q and ?w3.0 = "()"
        and img = 0 and env' = ?env4]
    by simp

  have "get_stock_info ?env5 ?t () = (Inr ?d, ())"
    by (rule stock_info_of_example [where ?w1.0 = "()" and ?w2.0 = "()"])
      (simp_all add: example_env_simps io_return_apply current_price_of_example
        quarterly_financials_of_example)
  moreover have "get_quarterly_financials ?env5 ?t () = (Inr (?np, ?sales, ?oi), ())"
    by (simp add: example_env_simps io_return_apply quarterly_financials_of_example)
  moreover have "calculate_quarterly_averages ?env5 ?t () = (Inr ?q, ())"
    by (rule averages_of_example) (simp_all add: example_env_simps io_return_apply)
  moreover have "plot_visualizations ?env5 ?t ?np ?sales ?q () = (Inl ?exit, ())"
    by (simp add: plot_visualizations_def bar_panel_def line_panel_def f io_defs
        example_rows_def)
  ultimately have r5: "main ?env5 ''EXAMPLE'' () = (Inl ?exit, ())"
    using main_error_path [OF t, where env = ?env5 and w = "()" and e = ?exit and w' = "()"
        and stock_info = ?d and ?w1.0 = "()" and net_profit = ?np and sales = ?sales
        and oi = ?oi and ?w2.0 = "()" and quarterly_high_low = ?q and ?w3.0 = "()"
        and img = 0 and env' = ?env5]
    by simp

  have "get_quarterly_financials example_env ?t () = (Inr (?np, ?sales, ?oi), ())"
    using example_quarterly_financials by simp
  moreover have "calculate_quarterly_averages example_env ?t () = (Inr ?q, ())"
    by (rule averages_of_example) (simp_all add: example_env_simps io_return_apply)
  moreover have "plot_visualizations example_env ?t ?np ?sales ?q () = (Inr 0, ())"
    by (rule plot_of_example) (simp_all add: example_env_simps)
  ultimately have r6: "main example_env ''EXAMPLE'' () =
      (Inr (stock_info_md example_env ?d, Some 0), ())"
    using main_error_path [OF t, where env = example_env and w = "()" and e = ?http
        and w' = "()" and stock_info = ?d and ?w1.0 = "()" and net_profit = ?np
        and sales = ?sales and oi = ?oi and ?w2.0 = "()" and quarterly_high_low = ?q
        and ?w3.0 = "()" and img = 0 and env' = example_env]
      example_stock_info
    by simp

  have r7: "main ?env6 ''EXAMPLE'' = main example_env ''EXAMPLE''"
    using main_error_path [OF t, where env = example_env and w = "()" and e = ?http
        and w' = "()" and stock_info = ?d and ?w1.0 = "()" and net_profit = ?np
        and sales = ?sales and oi = ?oi and ?w2.0 = "()" and quarterly_high_low = ?q
        and ?w3.0 = "()" and img = 0 and env' = ?env6]
    by (simp add: example_env_simps)

  show ?thesis
    using r1 r2 r3 r4 r5 r6 r7 by blast
qed

theorem main_keyboard_interrupt_counterexample:
  "yf_info (example_env\<lparr>yf_info := \<lambda>ticker. io_lift (Inl (Exn KeyboardInterrupt ''''))\<rparr>)
     ''EXAMPLE.NS'' () = (Inl (Exn KeyboardInterrupt ''''), ()) \<and>
   main (example_env\<lparr>yf_info := \<lambda>ticker. io_lift (Inl (Exn KeyboardInterrupt ''''))\<rparr>)
     ''EXAMPLE'' () = (Inl (Exn KeyboardInterrupt ''''), ())"
  by (simp add: main_def main_try_def get_stock_info_def io_bind_apply io_lift_apply
      except_Exception_def)

end
